theory Spec2Isabelle
  imports Main "HOL-Library.AList" "HOL-Library.Log_Nat"
begin

section \<open>Python library functions used by the booking server\<close>

text \<open>
  The server \<^verbatim>\<open>src/mcp_servers/tau2_mock_airbnb/server.py\<close> calls a handful of Python
  built-ins: \<^verbatim>\<open>str.replace\<close>, \<^verbatim>\<open>int()\<close>, the format specification \<^verbatim>\<open>03d\<close>,
  \<^verbatim>\<open>datetime.strptime\<close> / \<^verbatim>\<open>strftime\<close> with the format \<^verbatim>\<open>%Y-%m-%d\<close>, and binary64
  floating-point multiplication followed by \<^verbatim>\<open>int()\<close>.  They are modelled here for ASCII
  strings (a \<^typ>\<open>char\<close> is a byte); Python integers are unbounded, hence \<^typ>\<open>int\<close>.
\<close>

subsection \<open>Errors\<close>

text \<open>
  Every \<^verbatim>\<open>raise ValueError(msg)\<close> of the server is \<open>ValueError msg\<close> with the message
  the source builds.  Exceptions raised inside a built-in keep their own constructor,
  carrying the offending argument instead of Python's message text.
\<close>

datatype error =
    ValueError string
  | StrptimeValueError string
  | IntValueError string
  | KeyError string
  | OverflowError

subsection \<open>Decimal digits, \<^verbatim>\<open>str(n)\<close> and \<^verbatim>\<open>format(n, "03d")\<close>\<close>

definition is_digit :: "char \<Rightarrow> bool" where
  "is_digit c \<longleftrightarrow> c \<in> set ''0123456789''"

definition digit_val :: "char \<Rightarrow> int" where
  "digit_val c = int (of_char c) - 48"

definition digit_char :: "int \<Rightarrow> char" where
  "digit_char d = char_of (48 + nat d)"

function digits_of :: "nat \<Rightarrow> string" where
  "digits_of n = (if n < 10 then [digit_char (int n)]
                  else digits_of (n div 10) @ [digit_char (int (n mod 10))])"
  by pat_completeness auto
termination
  by (relation "measure id") auto

declare digits_of.simps [simp del]

definition zero_pad :: "nat \<Rightarrow> string \<Rightarrow> string" where
  "zero_pad w s = replicate (w - length s) (CHR ''0'') @ s"

text \<open>\<^verbatim>\<open>str(n)\<close> for an integer.\<close>

definition str_int :: "int \<Rightarrow> string" where
  "str_int n = (if n < 0 then CHR ''-'' # digits_of (nat (- n)) else digits_of (nat n))"

text \<open>\<^verbatim>\<open>f"{n:03d}"\<close>: at least three characters, zero padding after the sign.\<close>

definition format_03d :: "int \<Rightarrow> string" where
  "format_03d n = (if n < 0 then CHR ''-'' # zero_pad 2 (digits_of (nat (- n)))
                   else zero_pad 3 (digits_of (nat n)))"

subsection \<open>\<^verbatim>\<open>bid.replace("BOOK", "")\<close> and \<^verbatim>\<open>int(s)\<close>\<close>

text \<open>Non-overlapping occurrences of \<^verbatim>\<open>BOOK\<close> are removed from left to right.\<close>

fun replace_BOOK :: "string \<Rightarrow> string" where
  "replace_BOOK [] = []"
| "replace_BOOK (c # cs) =
     (if take 4 (c # cs) = ''BOOK'' then replace_BOOK (drop 3 cs)
      else c # replace_BOOK cs)"

definition is_space :: "char \<Rightarrow> bool" where
  "is_space c \<longleftrightarrow> c \<in> {CHR '' '', CHR 0x09, CHR 0x0A, CHR 0x0B, CHR 0x0C, CHR 0x0D}"

text \<open>
  The digits of an integer literal; a single underscore may stand between two digits.
\<close>

fun digits_value :: "int \<Rightarrow> string \<Rightarrow> int option" where
  "digits_value acc [] = Some acc"
| "digits_value acc (c # cs) =
     (if is_digit c then digits_value (10 * acc + digit_val c) cs
      else if c = CHR ''_'' then
        (case cs of [] \<Rightarrow> None
         | d # ds \<Rightarrow> if is_digit d then digits_value acc cs else None)
      else None)"

definition unsigned_value :: "string \<Rightarrow> int option" where
  "unsigned_value s =
     (case s of [] \<Rightarrow> None
      | c # cs \<Rightarrow> if is_digit c then digits_value 0 s else None)"

text \<open>
  \<^verbatim>\<open>int(s)\<close> in base 10: surrounding whitespace is stripped, one sign is allowed.
  \<open>None\<close> is Python's \<^verbatim>\<open>ValueError: invalid literal for int()\<close>.  (The limit of
  4300 digits that CPython 3.11 puts on such a literal is left out.)
\<close>

definition py_int :: "string \<Rightarrow> int option" where
  "py_int s =
     (let t = rev (dropWhile is_space (rev (dropWhile is_space s))) in
      case t of [] \<Rightarrow> None
      | c # cs \<Rightarrow>
          if c = CHR ''-'' then map_option uminus (unsigned_value cs)
          else if c = CHR ''+'' then unsigned_value cs
          else unsigned_value t)"

subsection \<open>Dates: \<^verbatim>\<open>datetime.strptime(s, "%Y-%m-%d")\<close> and \<^verbatim>\<open>strftime("%Y-%m-%d")\<close>\<close>

text \<open>
  A \<^verbatim>\<open>datetime\<close> at midnight is its proleptic Gregorian ordinal (\<^verbatim>\<open>toordinal()\<close>:
  day 1 is 0001-01-01), so \<^verbatim>\<open>d + timedelta(days=1)\<close> is \<open>d + 1\<close>, \<^verbatim>\<open>(b - a).days\<close> is
  \<open>b - a\<close> and comparison is comparison of integers.  The conversions follow CPython's
  \<^verbatim>\<open>_ymd2ord\<close> and \<^verbatim>\<open>_ord2ymd\<close>.
\<close>

type_synonym date = int

definition is_leap :: "int \<Rightarrow> bool" where
  "is_leap y \<longleftrightarrow> y mod 4 = 0 \<and> (y mod 100 \<noteq> 0 \<or> y mod 400 = 0)"

definition days_before_year :: "int \<Rightarrow> int" where
  "days_before_year year = (let y = year - 1 in y * 365 + y div 4 - y div 100 + y div 400)"

definition DAYS_IN_MONTH :: "int list" where
  "DAYS_IN_MONTH = [31, 28, 31, 30, 31, 30, 31, 31, 30, 31, 30, 31]"

definition DAYS_BEFORE_MONTH :: "int list" where
  "DAYS_BEFORE_MONTH = [0, 31, 59, 90, 120, 151, 181, 212, 243, 273, 304, 334]"

definition days_in_month :: "int \<Rightarrow> int \<Rightarrow> int" where
  "days_in_month year month =
     (if month = 2 \<and> is_leap year then 29 else DAYS_IN_MONTH ! nat (month - 1))"

definition days_before_month :: "int \<Rightarrow> int \<Rightarrow> int" where
  "days_before_month year month =
     DAYS_BEFORE_MONTH ! nat (month - 1) + (if month > 2 \<and> is_leap year then 1 else 0)"

definition ymd2ord :: "int \<Rightarrow> int \<Rightarrow> int \<Rightarrow> date" where
  "ymd2ord year month day = days_before_year year + days_before_month year month + day"

definition ord2ymd :: "date \<Rightarrow> int \<times> int \<times> int" where
  "ord2ymd ordinal =
     (let n = ordinal - 1;
          n400 = n div 146097; n = n mod 146097;
          n100 = n div 36524; n = n mod 36524;
          n4 = n div 1461; n = n mod 1461;
          n1 = n div 365; n = n mod 365;
          year = n400 * 400 + 1 + n100 * 100 + n4 * 4 + n1
      in if n1 = 4 \<or> n100 = 4 then (year - 1, 12, 31)
         else
           let leapyear = (n1 = 3 \<and> (n4 \<noteq> 24 \<or> n100 = 3));
               month = (n + 50) div 32;
               preceding = DAYS_BEFORE_MONTH ! nat (month - 1)
                           + (if month > 2 \<and> leapyear then 1 else 0)
           in if preceding > n
              then let month = month - 1;
                       preceding = preceding - (DAYS_IN_MONTH ! nat (month - 1)
                                     + (if month = 2 \<and> leapyear then 1 else 0))
                   in (year, month, n - preceding + 1)
              else (year, month, n - preceding + 1))"

text \<open>
  \<^verbatim>\<open>strftime("%Y-%m-%d")\<close>.  The year is written with four digits; for the years
  1000 to 9999 every platform agrees on that.
\<close>

definition strftime :: "date \<Rightarrow> string" where
  "strftime d =
     (case ord2ymd d of (y, m, dd) \<Rightarrow>
        zero_pad 4 (digits_of (nat y)) @ ''-'' @ zero_pad 2 (digits_of (nat m))
          @ ''-'' @ zero_pad 2 (digits_of (nat dd)))"

text \<open>The month field: the regular expression \<^verbatim>\<open>1[0-2]|0[1-9]|[1-9]\<close>.\<close>

definition month_field :: "string \<Rightarrow> int option" where
  "month_field s =
     (case s of
        [a] \<Rightarrow> if a \<in> set ''123456789'' then Some (digit_val a) else None
      | [a, b] \<Rightarrow>
          if a = CHR ''1'' \<and> b \<in> set ''012'' then Some (10 + digit_val b)
          else if a = CHR ''0'' \<and> b \<in> set ''123456789'' then Some (digit_val b)
          else None
      | _ \<Rightarrow> None)"

text \<open>The day field: \<^verbatim>\<open>3[0-1]|[1-2]\d|0[1-9]|[1-9]| [1-9]\<close>.\<close>

definition day_field :: "string \<Rightarrow> int option" where
  "day_field s =
     (case s of
        [a] \<Rightarrow> if a \<in> set ''123456789'' then Some (digit_val a) else None
      | [a, b] \<Rightarrow>
          if a = CHR ''3'' \<and> b \<in> set ''01'' then Some (30 + digit_val b)
          else if a \<in> set ''12'' \<and> is_digit b then Some (10 * digit_val a + digit_val b)
          else if a \<in> set ''0 '' \<and> b \<in> set ''123456789'' then Some (digit_val b)
          else None
      | _ \<Rightarrow> None)"

text \<open>
  \<^verbatim>\<open>datetime.strptime(s, "%Y-%m-%d")\<close>: four year digits, a hyphen, the month, a hyphen,
  the day, and nothing else; year 0 and a day beyond the month's length are refused.
  \<open>None\<close> is the \<^verbatim>\<open>ValueError\<close> that \<^verbatim>\<open>strptime\<close> raises.
\<close>

definition strptime :: "string \<Rightarrow> date option" where
  "strptime s =
     (case s of
        y1 # y2 # y3 # y4 # h # rest \<Rightarrow>
          if is_digit y1 \<and> is_digit y2 \<and> is_digit y3 \<and> is_digit y4 \<and> h = CHR ''-'' then
            (let ms = takeWhile (\<lambda>c. c \<noteq> CHR ''-'') rest;
                 after = dropWhile (\<lambda>c. c \<noteq> CHR ''-'') rest;
                 year = 1000 * digit_val y1 + 100 * digit_val y2 + 10 * digit_val y3
                        + digit_val y4
             in case after of
                  [] \<Rightarrow> None
                | _ # ds \<Rightarrow>
                    (case (month_field ms, day_field ds) of
                       (Some month, Some day) \<Rightarrow>
                         if year < 1 \<or> day > days_in_month year month then None
                         else Some (ymd2ord year month day)
                     | _ \<Rightarrow> None))
          else None
      | _ \<Rightarrow> None)"

subsection \<open>Binary64 floating point: \<^verbatim>\<open>int(n * c)\<close>\<close>

text \<open>
  A finite binary64 number is \<open>m * 2 ^ e\<close>, kept as the pair \<open>(m, e)\<close>.  Conversion from
  an integer and multiplication round the exact result to 53 significant bits, ties to
  even.  A result of magnitude \<open>2 ^ 1024\<close> or more is an overflow: \<^verbatim>\<open>float(n)\<close> raises
  \<^verbatim>\<open>OverflowError\<close>, a product becomes infinite and \<^verbatim>\<open>int()\<close> of it raises
  \<^verbatim>\<open>OverflowError\<close>.  Subnormal results do not arise: a nonzero integer times one of
  the two constants below has magnitude at least 0.08.
\<close>

type_synonym double = "int \<times> int"

definition round_half_even :: "int \<Rightarrow> nat \<Rightarrow> int" where
  "round_half_even a s =
     (let q = a div 2 ^ s; r = a mod 2 ^ s
      in if 2 * r > 2 ^ s \<or> (2 * r = 2 ^ s \<and> odd q) then q + 1 else q)"

definition round53 :: "int \<Rightarrow> int \<Rightarrow> double" where
  "round53 m e =
     (let s = nat (bitlen \<bar>m\<bar> - 53) in (sgn m * round_half_even \<bar>m\<bar> s, e + int s))"

definition overflows :: "double \<Rightarrow> bool" where
  "overflows x \<longleftrightarrow> bitlen \<bar>fst x\<bar> + snd x > 1024"

definition float_of_int :: "int \<Rightarrow> error + double" where
  "float_of_int n = (let x = round53 n 0 in if overflows x then Inl OverflowError else Inr x)"

definition float_mul :: "double \<Rightarrow> double \<Rightarrow> error + double" where
  "float_mul x y =
     (let p = round53 (fst x * fst y) (snd x + snd y)
      in if overflows p then Inl OverflowError else Inr p)"

text \<open>\<^verbatim>\<open>int(x)\<close> of a finite float truncates toward zero.\<close>

definition trunc_double :: "double \<Rightarrow> int" where
  "trunc_double x =
     (case x of (m, e) \<Rightarrow>
        if e \<ge> 0 then m * 2 ^ nat e else sgn m * (\<bar>m\<bar> div 2 ^ nat (- e)))"

text \<open>\<^verbatim>\<open>int(n * c)\<close> for a Python integer \<open>n\<close> and a float \<open>c\<close>.\<close>

definition int_mul_float :: "int \<Rightarrow> double \<Rightarrow> error + int" where
  "int_mul_float n c =
     (case float_of_int n of
        Inl err \<Rightarrow> Inl err
      | Inr x \<Rightarrow> (case float_mul x c of Inl err \<Rightarrow> Inl err | Inr p \<Rightarrow> Inr (trunc_double p)))"

text \<open>
  The float literals \<^verbatim>\<open>0.12\<close> (\<^verbatim>\<open>0x1.eb851eb851eb8p-4\<close>) and \<^verbatim>\<open>0.08\<close>
  (\<^verbatim>\<open>0x1.47ae147ae147bp-4\<close>).
\<close>

definition float_0_12 :: double where
  "float_0_12 = (8646911284551352, - 56)"

definition float_0_08 :: double where
  "float_0_08 = (5764607523034235, - 56)"

section \<open>The database\<close>

text \<open>
  \<^verbatim>\<open>db.json\<close> holds four dictionaries.  Fields that the booking operations never read
  (titles, addresses, profiles ...) are left out.  The availability dictionary is keyed
  by the \<^verbatim>\<open>strftime\<close> text of a date; since that text determines the date, it is a map
  from dates.  The bookings dictionary is an association list in insertion order, as
  \<^verbatim>\<open>get_next_booking_id\<close> iterates over its keys.
\<close>

record day_entry =
  status :: string
  price_per_night :: int

record property_data =
  capacity_guests :: int
  availability :: "date \<rightharpoonup> day_entry"

record user =
  payment_methods :: "string set"
  user_bookings :: "string list"

record booking =
  booking_id :: string
  user_id :: string
  property_id :: string
  check_in_date :: string
  check_out_date :: string
  nights :: int
  guest_count :: int
  booking_status :: string
  total_price :: int
  booking_date :: string
  payment_method_id :: string
  special_requests :: "string option"
  cancellation_policy :: string
  host_notes :: string
  cancellation_reason :: "string option"
  cancellation_date :: "string option"

record review =
  review_id :: string
  review_booking_id :: string
  review_user_id :: string
  review_property_id :: string
  rating :: int
  comment :: string
  review_date :: string
  helpful_votes :: int

record database =
  properties :: "string \<rightharpoonup> property_data"
  users :: "string \<rightharpoonup> user"
  bookings :: "(string \<times> booking) list"
  reviews :: "(string \<times> review) list"

text \<open>The file \<^verbatim>\<open>db.json\<close>: \<open>None\<close> when it does not exist.\<close>

type_synonym db_file = "database option"

definition load_db :: "db_file \<Rightarrow> database" where
  "load_db file =
     (case file of
        Some db \<Rightarrow> db
      | None \<Rightarrow> \<lparr>properties = Map.empty, users = Map.empty, bookings = [], reviews = []\<rparr>)"

definition save_db :: "database \<Rightarrow> db_file" where
  "save_db db = Some db"

subsection \<open>\<^verbatim>\<open>get_next_booking_id\<close>\<close>

text \<open>The list comprehension over the keys; the first key that is no integer raises.\<close>

fun existing_ids :: "string list \<Rightarrow> error + int list" where
  "existing_ids [] = Inr []"
| "existing_ids (bid # bids) =
     (case py_int (replace_BOOK bid) of
        None \<Rightarrow> Inl (IntValueError (replace_BOOK bid))
      | Some i \<Rightarrow> (case existing_ids bids of Inl err \<Rightarrow> Inl err | Inr ids \<Rightarrow> Inr (i # ids)))"

text \<open>\<^verbatim>\<open>max(xs, default=d)\<close>.\<close>

fun max_default :: "int list \<Rightarrow> int \<Rightarrow> int" where
  "max_default [] d = d"
| "max_default (x # xs) d = fold max xs x"

definition get_next_booking_id :: "database \<Rightarrow> error + string" where
  "get_next_booking_id db =
     (case existing_ids (map fst (bookings db)) of
        Inl err \<Rightarrow> Inl err
      | Inr ids \<Rightarrow> Inr (''BOOK'' @ format_03d (max_default ids 0 + 1)))"

section \<open>The tools of the server\<close>

text \<open>
  Every tool starts with \<^verbatim>\<open>db = load_db()\<close>; the mutating ones end with
  \<^verbatim>\<open>save_db(db)\<close>.  A tool is a function from the file to its outcome (\<open>Inl\<close> the
  exception raised, \<open>Inr\<close> the value returned) and the file after the call.  The
  dictionaries read from the file are mutated in memory; a \<^verbatim>\<open>raise\<close> leaves the function
  before \<^verbatim>\<open>save_db\<close>, so the file is then the one that was loaded.  The parameter
  \<open>today\<close> is the date \<^verbatim>\<open>datetime.now()\<close> yields.
\<close>

subsection \<open>The lookups\<close>

text \<open>The value of \<^verbatim>\<open>d.get(key, {})\<close>: the entry, or the empty dictionary.\<close>

datatype 'a lookup = EmptyDict | Entry 'a

definition get_property_details :: "db_file \<Rightarrow> string \<Rightarrow> property_data lookup \<times> db_file" where
  "get_property_details file property_id' =
     (let db = load_db file
      in (case properties db property_id' of None \<Rightarrow> EmptyDict | Some p \<Rightarrow> Entry p, file))"

definition get_user_profile :: "db_file \<Rightarrow> string \<Rightarrow> user lookup \<times> db_file" where
  "get_user_profile file user_id' =
     (let db = load_db file
      in (case users db user_id' of None \<Rightarrow> EmptyDict | Some u \<Rightarrow> Entry u, file))"

definition get_booking_details :: "db_file \<Rightarrow> string \<Rightarrow> booking lookup \<times> db_file" where
  "get_booking_details file booking_id' =
     (let db = load_db file
      in (case map_of (bookings db) booking_id' of None \<Rightarrow> EmptyDict | Some b \<Rightarrow> Entry b,
          file))"

definition get_user_bookings :: "db_file \<Rightarrow> string \<Rightarrow> booking list \<times> db_file" where
  "get_user_bookings file user_id' =
     (let db = load_db file
      in if user_id' \<notin> dom (users db) then ([], file)
         else (List.map_filter (\<lambda>bid. map_of (bookings db) bid)
                 (user_bookings (the (users db user_id'))), file))"

subsection \<open>\<^verbatim>\<open>create_booking\<close>\<close>

text \<open>The loop "Check availability for each night" (lines 201 to 209).\<close>

function check_availability ::
  "(date \<rightharpoonup> day_entry) \<Rightarrow> date \<Rightarrow> date \<Rightarrow> int \<Rightarrow> error + int" where
  "check_availability avail current_date end_date total_price' =
     (if current_date < end_date then
        (case avail current_date of
           None \<Rightarrow> Inl (ValueError (''Property not available on '' @ strftime current_date))
         | Some day_info \<Rightarrow>
             if status day_info \<noteq> ''available''
             then Inl (ValueError (''Property not available on '' @ strftime current_date))
             else check_availability avail (current_date + 1) end_date
                    (total_price' + price_per_night day_info))
      else Inr total_price')"
  by pat_completeness auto
termination
  by (relation "measure (\<lambda>(avail, current_date, end_date, t). nat (end_date - current_date))")
    auto

declare check_availability.simps [simp del]

text \<open>
  The loop "Mark dates as booked" (lines 235 to 239).  Assigning into the entry of a date
  that the dictionary lacks would be a \<^verbatim>\<open>KeyError\<close>.
\<close>

function mark_booked ::
  "(date \<rightharpoonup> day_entry) \<Rightarrow> date \<Rightarrow> date \<Rightarrow> error + (date \<rightharpoonup> day_entry)" where
  "mark_booked avail current_date end_date =
     (if current_date < end_date then
        (case avail current_date of
           None \<Rightarrow> Inl (KeyError (strftime current_date))
         | Some day_info \<Rightarrow>
             mark_booked (avail(current_date \<mapsto> day_info\<lparr>status := ''booked''\<rparr>))
               (current_date + 1) end_date)
      else Inr avail)"
  by pat_completeness auto
termination
  by (relation "measure (\<lambda>(avail, current_date, end_date). nat (end_date - current_date))") auto

declare mark_booked.simps [simp del]

definition create_booking ::
  "date \<Rightarrow> db_file \<Rightarrow> string \<Rightarrow> string \<Rightarrow> string \<Rightarrow> string \<Rightarrow> int \<Rightarrow> string \<Rightarrow> string option
     \<Rightarrow> (error + booking) \<times> db_file" where
  "create_booking today file user_id' property_id' check_in_date' check_out_date' guest_count'
       payment_method_id' special_requests' =
     (let db = load_db file in
      if user_id' \<notin> dom (users db) then
        (Inl (ValueError (''User '' @ user_id' @ '' not found'')), file)
      else if property_id' \<notin> dom (properties db) then
        (Inl (ValueError (''Property '' @ property_id' @ '' not found'')), file)
      else
        let usr = the (users db user_id');
            prop = the (properties db property_id')
        in
        if payment_method_id' \<notin> payment_methods usr then
          (Inl (ValueError (''Payment method '' @ payment_method_id' @ '' not found for user'')),
           file)
        else if guest_count' > capacity_guests prop then
          (Inl (ValueError (''Property can only accommodate ''
                  @ str_int (capacity_guests prop) @ '' guests'')), file)
        else
          (case strptime check_in_date' of
             None \<Rightarrow> (Inl (StrptimeValueError check_in_date'), file)
           | Some current_date \<Rightarrow>
          (case strptime check_out_date' of
             None \<Rightarrow> (Inl (StrptimeValueError check_out_date'), file)
           | Some end_date \<Rightarrow>
          let nights' = end_date - current_date in
          if nights' \<le> 0 then
            (Inl (ValueError ''Check-out date must be after check-in date''), file)
          else
          (case check_availability (availability prop) current_date end_date 0 of
             Inl err \<Rightarrow> (Inl err, file)
           | Inr total_price' \<Rightarrow>
          (case get_next_booking_id db of
             Inl err \<Rightarrow> (Inl err, file)
           | Inr new_id \<Rightarrow>
          let new_booking =
                \<lparr>booking_id = new_id, user_id = user_id', property_id = property_id',
                 check_in_date = check_in_date', check_out_date = check_out_date',
                 nights = nights', guest_count = guest_count',
                 booking_status = ''confirmed'', total_price = total_price',
                 booking_date = strftime today, payment_method_id = payment_method_id',
                 special_requests = special_requests', cancellation_policy = ''moderate'',
                 host_notes = '''', cancellation_reason = None, cancellation_date = None\<rparr>;
              db = db\<lparr>bookings := AList.update new_id new_booking (bookings db)\<rparr>;
              db = db\<lparr>users := (users db)(user_id' \<mapsto>
                        usr\<lparr>user_bookings := user_bookings usr @ [new_id]\<rparr>)\<rparr>
          in
          (case mark_booked (availability prop) current_date end_date of
             Inl err \<Rightarrow> (Inl err, file)
           | Inr avail \<Rightarrow>
               let db = db\<lparr>properties := (properties db)(property_id' \<mapsto>
                          prop\<lparr>availability := avail\<rparr>)\<rparr>
               in (Inr new_booking, save_db db)))))))"

subsection \<open>\<^verbatim>\<open>cancel_booking\<close>\<close>

text \<open>The loop "Free up the dates" (lines 316 to 320): a date the calendar lacks is skipped.\<close>

function free_dates ::
  "(date \<rightharpoonup> day_entry) \<Rightarrow> date \<Rightarrow> date \<Rightarrow> (date \<rightharpoonup> day_entry)" where
  "free_dates avail current_date end_date =
     (if current_date < end_date then
        free_dates
          (case avail current_date of
             None \<Rightarrow> avail
           | Some day_info \<Rightarrow> avail(current_date \<mapsto> day_info\<lparr>status := ''available''\<rparr>))
          (current_date + 1) end_date
      else avail)"
  by pat_completeness auto
termination
  by (relation "measure (\<lambda>(avail, current_date, end_date). nat (end_date - current_date))") auto

declare free_dates.simps [simp del]

definition cancel_booking ::
  "date \<Rightarrow> db_file \<Rightarrow> string \<Rightarrow> string \<Rightarrow> (error + booking) \<times> db_file" where
  "cancel_booking today file booking_id' reason =
     (let db = load_db file in
      case map_of (bookings db) booking_id' of
        None \<Rightarrow> (Inl (ValueError (''Booking '' @ booking_id' @ '' not found'')), file)
      | Some b \<Rightarrow>
          if booking_status b = ''cancelled'' then
            (Inl (ValueError ''Booking is already cancelled''), file)
          else if booking_status b = ''completed'' then
            (Inl (ValueError ''Cannot cancel completed booking''), file)
          else
            let b = b\<lparr>booking_status := ''cancelled'', cancellation_reason := Some reason,
                      cancellation_date := Some (strftime today)\<rparr>;
                db = db\<lparr>bookings := AList.update booking_id' b (bookings db)\<rparr>
            in
            (case properties db (property_id b) of
               None \<Rightarrow> (Inl (KeyError (property_id b)), file)
             | Some prop \<Rightarrow>
            (case strptime (check_in_date b) of
               None \<Rightarrow> (Inl (StrptimeValueError (check_in_date b)), file)
             | Some current_date \<Rightarrow>
            (case strptime (check_out_date b) of
               None \<Rightarrow> (Inl (StrptimeValueError (check_out_date b)), file)
             | Some end_date \<Rightarrow>
                 let db = db\<lparr>properties := (properties db)(property_id b \<mapsto>
                            prop\<lparr>availability :=
                              free_dates (availability prop) current_date end_date\<rparr>)\<rparr>
                 in (Inr b, save_db db)))))"

subsection \<open>\<^verbatim>\<open>calculate_booking_cost\<close>\<close>

record nightly_cost =
  date :: string
  price :: int

record cost_breakdown =
  cost_property_id :: string
  cost_check_in_date :: string
  cost_check_out_date :: string
  cost_nights :: int
  nightly_costs :: "nightly_cost list"
  subtotal :: int
  service_fee :: int
  cleaning_fee :: int
  taxes :: int
  total :: int

text \<open>The loop of lines 430 to 442.\<close>

function nightly_loop ::
  "(date \<rightharpoonup> day_entry) \<Rightarrow> date \<Rightarrow> date \<Rightarrow> nightly_cost list \<Rightarrow> int
     \<Rightarrow> error + (nightly_cost list \<times> int)" where
  "nightly_loop avail current_date end_date costs total_price' =
     (if current_date < end_date then
        (case avail current_date of
           None \<Rightarrow> Inl (ValueError (''Property not available on '' @ strftime current_date))
         | Some day_info \<Rightarrow>
             if status day_info \<noteq> ''available''
             then Inl (ValueError (''Property not available on '' @ strftime current_date))
             else nightly_loop avail (current_date + 1) end_date
                    (costs @ [\<lparr>date = strftime current_date, price = price_per_night day_info\<rparr>])
                    (total_price' + price_per_night day_info))
      else Inr (costs, total_price'))"
  by pat_completeness auto
termination
  by (relation "measure (\<lambda>(avail, current_date, end_date, costs, t).
        nat (end_date - current_date))") auto

declare nightly_loop.simps [simp del]

text \<open>"Calculate fees (simplified)" and the returned dictionary (lines 444 to 460).\<close>

definition fees ::
  "string \<Rightarrow> string \<Rightarrow> string \<Rightarrow> int \<Rightarrow> nightly_cost list \<Rightarrow> int \<Rightarrow> error + cost_breakdown" where
  "fees property_id' check_in_date' check_out_date' nights' costs total_price' =
     (case int_mul_float total_price' float_0_12 of
        Inl err \<Rightarrow> Inl err
      | Inr service_fee' \<Rightarrow>
          let cleaning_fee' = 50 in
          (case int_mul_float (total_price' + service_fee' + cleaning_fee') float_0_08 of
             Inl err \<Rightarrow> Inl err
           | Inr taxes' \<Rightarrow>
               Inr \<lparr>cost_property_id = property_id', cost_check_in_date = check_in_date',
                    cost_check_out_date = check_out_date', cost_nights = nights',
                    nightly_costs = costs, subtotal = total_price',
                    service_fee = service_fee', cleaning_fee = cleaning_fee',
                    taxes = taxes',
                    total = total_price' + service_fee' + cleaning_fee' + taxes'\<rparr>))"

definition calculate_booking_cost ::
  "db_file \<Rightarrow> string \<Rightarrow> string \<Rightarrow> string \<Rightarrow> (error + cost_breakdown) \<times> db_file" where
  "calculate_booking_cost file property_id' check_in_date' check_out_date' =
     (let db = load_db file in
      if property_id' \<notin> dom (properties db) then
        (Inl (ValueError (''Property '' @ property_id' @ '' not found'')), file)
      else
        let prop = the (properties db property_id') in
        (case strptime check_in_date' of
           None \<Rightarrow> (Inl (StrptimeValueError check_in_date'), file)
         | Some current_date \<Rightarrow>
        (case strptime check_out_date' of
           None \<Rightarrow> (Inl (StrptimeValueError check_out_date'), file)
         | Some end_date \<Rightarrow>
        let nights' = end_date - current_date in
        if nights' \<le> 0 then
          (Inl (ValueError ''Check-out date must be after check-in date''), file)
        else
        (case nightly_loop (availability prop) current_date end_date [] 0 of
           Inl err \<Rightarrow> (Inl err, file)
         | Inr (costs, total_price') \<Rightarrow>
             (fees property_id' check_in_date' check_out_date' nights' costs total_price',
              file)))))"

section \<open>Notions used to state the properties\<close>

text \<open>A date can be booked when the calendar has it with status \<^verbatim>\<open>available\<close>.\<close>

definition bookable :: "(date \<rightharpoonup> day_entry) \<Rightarrow> date \<Rightarrow> bool" where
  "bookable avail d \<longleftrightarrow>
     (case avail d of None \<Rightarrow> False | Some day_info \<Rightarrow> status day_info = ''available'')"

text \<open>Giving every date of \<open>[a, b)\<close> that the calendar has the status \<open>s\<close>.\<close>

definition set_status ::
  "string \<Rightarrow> date \<Rightarrow> date \<Rightarrow> (date \<rightharpoonup> day_entry) \<Rightarrow> (date \<rightharpoonup> day_entry)" where
  "set_status s a b avail =
     (\<lambda>d. if a \<le> d \<and> d < b then map_option (\<lambda>day_info. day_info\<lparr>status := s\<rparr>) (avail d)
          else avail d)"

text \<open>Calling \<^verbatim>\<open>calculate_booking_cost\<close> \<open>n\<close> times in a row, on the file the previous call left.\<close>

fun repeat_quote ::
  "nat \<Rightarrow> db_file \<Rightarrow> string \<Rightarrow> string \<Rightarrow> string \<Rightarrow> (error + cost_breakdown) list \<times> db_file" where
  "repeat_quote 0 file p ci co = ([], file)"
| "repeat_quote (Suc n) file p ci co =
     (case calculate_booking_cost file p ci co of
        (r, file') \<Rightarrow> (case repeat_quote n file' p ci co of (rs, file'') \<Rightarrow> (r # rs, file'')))"

subsection \<open>Double booking\<close>

text \<open>
  The nights of a booking are the dates of its half-open range, from the check-in date
  up to the day before the check-out date (none when a stored date is no date).  A
  booking is active unless its status is \<^verbatim>\<open>cancelled\<close>.
\<close>

definition booking_nights :: "booking \<Rightarrow> date list" where
  "booking_nights b =
     (case strptime (check_in_date b) of
        None \<Rightarrow> []
      | Some a \<Rightarrow> (case strptime (check_out_date b) of None \<Rightarrow> [] | Some c \<Rightarrow> [a..c - 1]))"

definition active :: "booking \<Rightarrow> bool" where
  "active b \<longleftrightarrow> booking_status b \<noteq> ''cancelled''"

text \<open>No two active bookings of the same property share a night.\<close>

definition no_double_booking :: "database \<Rightarrow> bool" where
  "no_double_booking db \<longleftrightarrow>
     (\<forall>(k1, b1) \<in> set (bookings db). \<forall>(k2, b2) \<in> set (bookings db).
        k1 \<noteq> k2 \<and> active b1 \<and> active b2 \<and> property_id b1 = property_id b2
        \<longrightarrow> set (booking_nights b1) \<inter> set (booking_nights b2) = {})"

text \<open>
  The calendar agrees with the bookings: no night of an active booking can be booked in
  the calendar of its property.
\<close>

definition calendar_agrees :: "database \<Rightarrow> bool" where
  "calendar_agrees db \<longleftrightarrow>
     (\<forall>(k, b) \<in> set (bookings db). active b \<longrightarrow>
        (case properties db (property_id b) of
           None \<Rightarrow> True
         | Some prop \<Rightarrow> \<forall>d \<in> set (booking_nights b). \<not> bookable (availability prop) d))"

definition consistent :: "database \<Rightarrow> bool" where
  "consistent db \<longleftrightarrow>
     distinct (map fst (bookings db)) \<and> calendar_agrees db \<and> no_double_booking db"

text \<open>
  The files that calls of \<^verbatim>\<open>create_booking\<close> and \<^verbatim>\<open>cancel_booking\<close>, with any arguments and
  on any day, lead to from the file \<open>file0\<close>.
\<close>

inductive reachable :: "db_file \<Rightarrow> db_file \<Rightarrow> bool" for file0 :: db_file where
  start: "reachable file0 file0"
| book: "reachable file0 file \<Longrightarrow>
         reachable file0 (snd (create_booking today file uid pid ci co g pm sr))"
| cancel: "reachable file0 file \<Longrightarrow>
           reachable file0 (snd (cancel_booking today file bid reason))"

subsection \<open>Example data\<close>

text \<open>
  The scenario of the specification: unit \<^verbatim>\<open>U1\<close> offers 2024-05-15 to 2024-05-17 (the
  ordinals 739021 to 739023) at 100 a night; \<^verbatim>\<open>user1\<close> has the payment method \<^verbatim>\<open>pm1\<close>.
\<close>

definition open_day :: day_entry where
  "open_day = \<lparr>status = ''available'', price_per_night = 100\<rparr>"

definition taken_day :: day_entry where
  "taken_day = \<lparr>status = ''booked'', price_per_night = 0\<rparr>"

definition calendar_open :: "date \<rightharpoonup> day_entry" where
  "calendar_open = [739021 \<mapsto> open_day, 739022 \<mapsto> open_day, 739023 \<mapsto> open_day]"

text \<open>The same calendar without 2024-05-16, and with 2024-05-16 booked.\<close>

definition calendar_gap :: "date \<rightharpoonup> day_entry" where
  "calendar_gap = [739021 \<mapsto> open_day, 739023 \<mapsto> open_day]"

definition calendar_taken :: "date \<rightharpoonup> day_entry" where
  "calendar_taken = [739021 \<mapsto> open_day, 739022 \<mapsto> taken_day, 739023 \<mapsto> open_day]"

text \<open>A calendar whose only night costs 9400000000000008.\<close>

definition calendar_costly :: "date \<rightharpoonup> day_entry" where
  "calendar_costly =
     [739021 \<mapsto> \<lparr>status = ''available'', price_per_night = 9400000000000008\<rparr>]"

definition example_db :: "(date \<rightharpoonup> day_entry) \<Rightarrow> (string \<times> booking) list \<Rightarrow> database" where
  "example_db calendar bs =
     \<lparr>properties = [''U1'' \<mapsto> \<lparr>capacity_guests = 4, availability = calendar\<rparr>],
      users = [''user1'' \<mapsto> \<lparr>payment_methods = {''pm1''}, user_bookings = map fst bs\<rparr>],
      bookings = bs, reviews = []\<rparr>"

text \<open>
  A booking as \<^verbatim>\<open>make_db.py\<close> generates them, with status \<^verbatim>\<open>pending\<close>: the generator marks
  the calendar only for the statuses \<^verbatim>\<open>confirmed\<close>, \<^verbatim>\<open>checked_in\<close> and \<^verbatim>\<open>completed\<close>.
\<close>

definition pending_booking :: booking where
  "pending_booking =
     \<lparr>booking_id = ''BOOK0001'', user_id = ''user1'', property_id = ''U1'',
      check_in_date = ''2024-05-15'', check_out_date = ''2024-05-17'', nights = 2,
      guest_count = 2, booking_status = ''pending'', total_price = 295,
      booking_date = ''2024-05-01'', payment_method_id = ''pm1'',
      special_requests = Some '''', cancellation_policy = ''moderate'', host_notes = '''',
      cancellation_reason = None, cancellation_date = None\<rparr>"

section \<open>Properties\<close>

subsection \<open>The availability loops\<close>

lemma check_availability_first_failure:
  "a \<le> d \<Longrightarrow> d < b \<Longrightarrow> \<not> bookable av d \<Longrightarrow> (\<forall>d'. a \<le> d' \<and> d' < d \<longrightarrow> bookable av d')
   \<Longrightarrow> check_availability av a b t
       = Inl (ValueError (''Property not available on '' @ strftime d))"
proof (induction av a b t rule: check_availability.induct)
  case (1 avail current_date end_date total)
  show ?case
  proof (cases "current_date = d")
    case True
    with 1 show ?thesis
      by (subst check_availability.simps) (auto simp: bookable_def split: option.splits)
  next
    case False
    with 1 have lt: "current_date < d" by simp
    with 1 have bk: "bookable avail current_date" by simp
    then obtain e where e: "avail current_date = Some e" "status e = ''available''"
      by (auto simp: bookable_def split: option.splits)
    have "check_availability avail (current_date + 1) end_date (total + price_per_night e)
          = Inl (ValueError (''Property not available on '' @ strftime d))"
      using 1 lt e by (intro "1.IH") auto
    with 1 lt e show ?thesis
      by (subst check_availability.simps) auto
  qed
qed

lemma check_availability_all_bookable:
  "(\<forall>d. a \<le> d \<and> d < b \<longrightarrow> bookable av d) \<Longrightarrow> \<exists>t'. check_availability av a b t = Inr t'"
proof (induction av a b t rule: check_availability.induct)
  case (1 avail current_date end_date total)
  show ?case
  proof (cases "current_date < end_date")
    case False
    then show ?thesis by (subst check_availability.simps) simp
  next
    case True
    with 1 have "bookable avail current_date" by simp
    then obtain e where e: "avail current_date = Some e" "status e = ''available''"
      by (auto simp: bookable_def split: option.splits)
    have "\<exists>t'. check_availability avail (current_date + 1) end_date
                 (total + price_per_night e) = Inr t'"
      using 1 True e by (intro "1.IH") auto
    with True e show ?thesis
      by (subst check_availability.simps) auto
  qed
qed

lemma check_availability_Inr_bookable:
  "check_availability av a b t = Inr t' \<Longrightarrow> a \<le> d \<Longrightarrow> d < b \<Longrightarrow> bookable av d"
proof (induction av a b t rule: check_availability.induct)
  case (1 avail current_date end_date total)
  from "1.prems" have lt: "current_date < end_date" by simp
  from "1.prems"(1) lt obtain e where e: "avail current_date = Some e" "status e = ''available''"
    and rec: "check_availability avail (current_date + 1) end_date
                (total + price_per_night e) = Inr t'"
    by (subst (asm) check_availability.simps) (auto split: option.splits if_splits)
  show ?case
  proof (cases "d = current_date")
    case True
    with e show ?thesis by (simp add: bookable_def)
  next
    case False
    with "1.prems" have "current_date + 1 \<le> d" by simp
    with 1 lt e rec show ?thesis by auto
  qed
qed

text \<open>Among the dates of a range that cannot be booked there is a first one.\<close>

lemma first_unbookable:
  assumes "a \<le> d0" "d0 < b" "\<not> bookable av d0"
  obtains d where "a \<le> d" "d < b" "\<not> bookable av d" "\<forall>d'. a \<le> d' \<and> d' < d \<longrightarrow> bookable av d'"
proof -
  define P where "P k \<longleftrightarrow> \<not> bookable av (a + int k)" for k
  have P0: "P (nat (d0 - a))" using assms by (simp add: P_def)
  then have L: "P (LEAST k. P k)" by (rule LeastI)
  have M: "\<not> P k" if "k < (LEAST k. P k)" for k using that by (rule not_less_Least)
  define d where "d = a + int (LEAST k. P k)"
  have "(LEAST k. P k) \<le> nat (d0 - a)" using P0 by (rule Least_le)
  then have db: "a \<le> d" "d < b" using assms by (auto simp: d_def)
  have nb: "\<not> bookable av d" using L by (simp add: P_def d_def)
  have before: "\<forall>d'. a \<le> d' \<and> d' < d \<longrightarrow> bookable av d'"
  proof (intro allI impI)
    fix d' assume d': "a \<le> d' \<and> d' < d"
    then have "nat (d' - a) < (LEAST k. P k)" by (auto simp: d_def)
    from M[OF this] d' show "bookable av d'" by (simp add: P_def)
  qed
  from db nb before that show thesis by blast
qed

text \<open>
  The loop of \<^verbatim>\<open>calculate_booking_cost\<close> is the loop of \<^verbatim>\<open>create_booking\<close> that also
  collects the nightly costs.
\<close>

lemma nightly_loop_check_availability:
  "map_sum id snd (nightly_loop av a b cs t) = check_availability av a b t"
proof (induction av a b cs t rule: nightly_loop.induct)
  case (1 avail current_date end_date costs total)
  show ?case
  proof (cases "current_date < end_date")
    case False
    then show ?thesis
      by (subst nightly_loop.simps, subst check_availability.simps) simp
  next
    case True
    show ?thesis
    proof (cases "avail current_date")
      case None
      with True show ?thesis
        by (subst nightly_loop.simps, subst check_availability.simps) simp
    next
      case (Some e)
      show ?thesis
      proof (cases "status e = ''available''")
        case False
        with True Some show ?thesis
          by (subst nightly_loop.simps, subst check_availability.simps) simp
      next
        case avail: True
        have step_n: "nightly_loop avail current_date end_date costs total =
          nightly_loop avail (current_date + 1) end_date
            (costs @ [\<lparr>date = strftime current_date, price = price_per_night e\<rparr>])
            (total + price_per_night e)"
          using True Some avail by (subst nightly_loop.simps) simp
        have step_c: "check_availability avail current_date end_date total =
          check_availability avail (current_date + 1) end_date (total + price_per_night e)"
          using True Some avail by (subst check_availability.simps) simp
        show ?thesis
          unfolding step_n step_c using "1.IH"[OF True Some] avail by simp
      qed
    qed
  qed
qed

lemma nightly_loop_Inl_iff:
  "nightly_loop av a b cs t = Inl err \<longleftrightarrow> check_availability av a b t = Inl err"
  using nightly_loop_check_availability[of av a b cs t]
  by (cases "nightly_loop av a b cs t") auto

lemma free_dates_set_status: "free_dates av a b = set_status ''available'' a b av"
proof (induction av a b rule: free_dates.induct)
  case (1 avail current_date end_date)
  show ?case
  proof (cases "current_date < end_date")
    case False
    then show ?thesis
      by (subst free_dates.simps) (auto simp: set_status_def fun_eq_iff)
  next
    case True
    define avail' where "avail' = (case avail current_date of None \<Rightarrow> avail
      | Some day_info \<Rightarrow> avail(current_date \<mapsto> day_info\<lparr>status := ''available''\<rparr>))"
    have "free_dates avail current_date end_date = free_dates avail' (current_date + 1) end_date"
      using True by (subst free_dates.simps) (simp add: avail'_def)
    also have "\<dots> = set_status ''available'' (current_date + 1) end_date avail'"
      using "1.IH"[OF True] by (simp add: avail'_def)
    also have "\<dots> = set_status ''available'' current_date end_date avail"
    proof (rule ext)
      fix d
      show "set_status ''available'' (current_date + 1) end_date avail' d
            = set_status ''available'' current_date end_date avail d"
      proof (cases "d = current_date")
        case True
        with \<open>current_date < end_date\<close> show ?thesis
          by (simp add: set_status_def avail'_def split: option.splits)
      next
        case False
        then have "(current_date + 1 \<le> d) = (current_date \<le> d)" by auto
        with False show ?thesis
          by (simp add: set_status_def avail'_def split: option.splits)
      qed
    qed
    finally show ?thesis .
  qed
qed

lemma mark_booked_set_status:
  "(\<forall>d. a \<le> d \<and> d < b \<longrightarrow> av d \<noteq> None) \<Longrightarrow> mark_booked av a b = Inr (set_status ''booked'' a b av)"
proof (induction av a b rule: mark_booked.induct)
  case (1 avail current_date end_date)
  show ?case
  proof (cases "current_date < end_date")
    case False
    then have "set_status ''booked'' current_date end_date avail = avail"
      by (auto simp: set_status_def fun_eq_iff)
    with False show ?thesis
      by (subst mark_booked.simps) simp
  next
    case True
    with "1.prems" obtain e where e: "avail current_date = Some e" by auto
    define avail' where "avail' = avail(current_date \<mapsto> e\<lparr>status := ''booked''\<rparr>)"
    have "mark_booked avail current_date end_date = mark_booked avail' (current_date + 1) end_date"
      using True e by (subst mark_booked.simps) (simp add: avail'_def)
    also have "\<dots> = Inr (set_status ''booked'' (current_date + 1) end_date avail')"
      unfolding avail'_def using "1.prems" by (intro "1.IH"[OF True e]) auto
    also have "set_status ''booked'' (current_date + 1) end_date avail'
               = set_status ''booked'' current_date end_date avail"
    proof (rule ext)
      fix d
      show "set_status ''booked'' (current_date + 1) end_date avail' d
            = set_status ''booked'' current_date end_date avail d"
      proof (cases "d = current_date")
        case True
        with \<open>current_date < end_date\<close> e show ?thesis
          by (simp add: set_status_def avail'_def)
      next
        case False
        then have "(current_date + 1 \<le> d) = (current_date \<le> d)" by auto
        with False show ?thesis
          by (simp add: set_status_def avail'_def)
      qed
    qed
    finally show ?thesis .
  qed
qed

lemma bookable_dom: "bookable av d \<Longrightarrow> av d \<noteq> None"
  by (auto simp: bookable_def split: option.splits)

subsection \<open>Lookups of unknown ids\<close>

text \<open>
  Claim C10.  For an id that the database lacks, \<^verbatim>\<open>get_property_details\<close>,
  \<^verbatim>\<open>get_user_profile\<close> and \<^verbatim>\<open>get_booking_details\<close> return the empty dictionary and
  \<^verbatim>\<open>get_user_bookings\<close> returns the empty list, the file being left as it was, whereas
  \<^verbatim>\<open>create_booking\<close>, \<^verbatim>\<open>calculate_booking_cost\<close> and \<^verbatim>\<open>cancel_booking\<close> raise their "not found"
  errors.
\<close>

theorem unknown_id_lookups:
  "(properties (load_db file) pid = None \<longrightarrow>
      get_property_details file pid = (EmptyDict, file)
      \<and> calculate_booking_cost file pid ci co
          = (Inl (ValueError (''Property '' @ pid @ '' not found'')), file))
   \<and> (users (load_db file) uid = None \<longrightarrow>
      get_user_profile file uid = (EmptyDict, file)
      \<and> get_user_bookings file uid = ([], file)
      \<and> create_booking today file uid pid ci co g pm sr
          = (Inl (ValueError (''User '' @ uid @ '' not found'')), file))
   \<and> (users (load_db file) uid \<noteq> None \<and> properties (load_db file) pid = None \<longrightarrow>
      create_booking today file uid pid ci co g pm sr
      = (Inl (ValueError (''Property '' @ pid @ '' not found'')), file))
   \<and> (map_of (bookings (load_db file)) bid = None \<longrightarrow>
      get_booking_details file bid = (EmptyDict, file)
      \<and> cancel_booking today file bid reason
          = (Inl (ValueError (''Booking '' @ bid @ '' not found'')), file))"
  by (auto simp: get_property_details_def get_user_profile_def get_booking_details_def
      get_user_bookings_def create_booking_def calculate_booking_cost_def cancel_booking_def
      dom_def)

theorem unknown_id_lookups_witness:
  "get_property_details (Some (example_db calendar_open [])) ''U9''
     = (EmptyDict, Some (example_db calendar_open []))
   \<and> get_user_profile (Some (example_db calendar_open [])) ''user9''
     = (EmptyDict, Some (example_db calendar_open []))
   \<and> get_user_bookings (Some (example_db calendar_open [])) ''user9''
     = ([], Some (example_db calendar_open []))
   \<and> get_booking_details (Some (example_db calendar_open [])) ''BOOK999''
     = (EmptyDict, Some (example_db calendar_open []))
   \<and> cancel_booking 739000 (Some (example_db calendar_open [])) ''BOOK999'' ''''
     = (Inl (ValueError ''Booking BOOK999 not found''), Some (example_db calendar_open []))
   \<and> create_booking 739000 (Some (example_db calendar_open [])) ''user9'' ''U9''
       ''2024-05-15'' ''2024-05-17'' 2 ''pm1'' None
     = (Inl (ValueError ''User user9 not found''), Some (example_db calendar_open []))
   \<and> create_booking 739000 (Some (example_db calendar_open [])) ''user1'' ''U9''
       ''2024-05-15'' ''2024-05-17'' 2 ''pm1'' None
     = (Inl (ValueError ''Property U9 not found''), Some (example_db calendar_open []))"
  using unknown_id_lookups[of "Some (example_db calendar_open [])" "''U9''" "''2024-05-15''"
      "''2024-05-17''" "''user1''" 739000 2 "''pm1''" None "''BOOK999''" "''''"]
    unknown_id_lookups[of "Some (example_db calendar_open [])" "''U9''" "''2024-05-15''"
      "''2024-05-17''" "''user9''" 739000 2 "''pm1''" None "''BOOK999''" "''''"]
  by (simp add: load_db_def example_db_def)

subsection \<open>The order of the validations of \<^verbatim>\<open>create_booking\<close>\<close>

text \<open>
  Claim C9, as the code has it.  \<^verbatim>\<open>create_booking\<close> validates the payment method (line
  183) before the guest capacity (line 187): for a known user and a known property, a
  payment method that the user lacks is reported whatever the guest count is, and the
  capacity error is reported only when the payment method is one of the user's.
\<close>

theorem payment_validated_before_capacity:
  assumes "users (load_db file) uid = Some usr"
    and "properties (load_db file) pid = Some prop"
  shows "(pm \<notin> payment_methods usr \<longrightarrow>
            create_booking today file uid pid ci co g pm sr
            = (Inl (ValueError (''Payment method '' @ pm @ '' not found for user'')), file))
       \<and> (pm \<in> payment_methods usr \<and> g > capacity_guests prop \<longrightarrow>
            create_booking today file uid pid ci co g pm sr
            = (Inl (ValueError (''Property can only accommodate ''
                 @ str_int (capacity_guests prop) @ '' guests'')), file))"
  using assms by (simp add: create_booking_def dom_def)

theorem payment_validated_before_capacity_witness:
  "create_booking 739000 (Some (example_db calendar_open [])) ''user1'' ''U1''
       ''2024-05-15'' ''2024-05-17'' 5 ''pm9'' None
     = (Inl (ValueError ''Payment method pm9 not found for user''),
        Some (example_db calendar_open []))
   \<and> create_booking 739000 (Some (example_db calendar_open [])) ''user1'' ''U1''
       ''2024-05-15'' ''2024-05-17'' 5 ''pm1'' None
     = (Inl (ValueError (''Property can only accommodate '' @ str_int 4 @ '' guests'')),
        Some (example_db calendar_open []))"
  using payment_validated_before_capacity[of "Some (example_db calendar_open [])" "''user1''"
      "\<lparr>payment_methods = {''pm1''}, user_bookings = []\<rparr>" "''U1''"
      "\<lparr>capacity_guests = 4, availability = calendar_open\<rparr>" "''pm9''" 739000
      "''2024-05-15''" "''2024-05-17''" 5 None]
    payment_validated_before_capacity[of "Some (example_db calendar_open [])" "''user1''"
      "\<lparr>payment_methods = {''pm1''}, user_bookings = []\<rparr>" "''U1''"
      "\<lparr>capacity_guests = 4, availability = calendar_open\<rparr>" "''pm1''" 739000
      "''2024-05-15''" "''2024-05-17''" 5 None]
  by (simp add: load_db_def example_db_def)

text \<open>
  The claim as the specification words it (capacity first) fails: a request for five
  guests in a unit for four, paid with a method the user does not have, is refused for
  the payment method, not for the capacity.
\<close>

theorem capacity_first_counterexample:
  "5 > capacity_guests (the (properties (example_db calendar_open []) ''U1''))
   \<and> ''pm9'' \<notin> payment_methods (the (users (example_db calendar_open []) ''user1''))
   \<and> fst (create_booking 739000 (Some (example_db calendar_open [])) ''user1'' ''U1''
        ''2024-05-15'' ''2024-05-17'' 5 ''pm9'' None)
     = Inl (ValueError ''Payment method pm9 not found for user'')
   \<and> fst (create_booking 739000 (Some (example_db calendar_open [])) ''user1'' ''U1''
        ''2024-05-15'' ''2024-05-17'' 5 ''pm9'' None)
     \<noteq> Inl (ValueError ''Property can only accommodate 4 guests'')"
  by (simp add: create_booking_def load_db_def example_db_def)

subsection \<open>The quote is read-only\<close>

text \<open>
  Claim C8.  \<^verbatim>\<open>calculate_booking_cost\<close> leaves the database file (properties with their
  calendars, users, bookings, reviews) exactly as it was, for every property id and
  every pair of date strings, and \<open>n\<close> calls in a row give \<open>n\<close> times the same result.
\<close>

theorem quote_read_only:
  "snd (calculate_booking_cost file pid ci co) = file
   \<and> repeat_quote n file pid ci co
       = (replicate n (fst (calculate_booking_cost file pid ci co)), file)"
proof -
  have frame: "snd (calculate_booking_cost f pid ci co) = f" for f
    by (simp add: calculate_booking_cost_def Let_def split: option.splits sum.splits prod.splits)
  have "repeat_quote n file pid ci co
        = (replicate n (fst (calculate_booking_cost file pid ci co)), file)"
  proof (induction n)
    case 0
    show ?case by simp
  next
    case (Suc n)
    obtain r where r: "calculate_booking_cost file pid ci co = (r, file)"
      using frame[of "file"] by (cases "calculate_booking_cost file pid ci co") simp
    with Suc show ?case by simp
  qed
  with frame show ?thesis by simp
qed

theorem quote_read_only_witness:
  "snd (calculate_booking_cost (Some (example_db calendar_open [])) ''U1''
          ''2024-05-15'' ''2024-05-17'') = Some (example_db calendar_open [])
   \<and> repeat_quote 3 (Some (example_db calendar_open [])) ''U1'' ''2024-05-15'' ''2024-05-17''
     = (replicate 3
          (Inr \<lparr>cost_property_id = ''U1'', cost_check_in_date = ''2024-05-15'',
                cost_check_out_date = ''2024-05-17'', cost_nights = 2,
                nightly_costs = [\<lparr>date = ''2024-05-15'', price = 100\<rparr>,
                                 \<lparr>date = ''2024-05-16'', price = 100\<rparr>],
                subtotal = 200, service_fee = 24, cleaning_fee = 50, taxes = 21,
                total = 295\<rparr>),
        Some (example_db calendar_open []))"
proof -
  have "fst (calculate_booking_cost (Some (example_db calendar_open [])) ''U1''
          ''2024-05-15'' ''2024-05-17'')
        = Inr \<lparr>cost_property_id = ''U1'', cost_check_in_date = ''2024-05-15'',
                cost_check_out_date = ''2024-05-17'', cost_nights = 2,
                nightly_costs = [\<lparr>date = ''2024-05-15'', price = 100\<rparr>,
                                 \<lparr>date = ''2024-05-16'', price = 100\<rparr>],
                subtotal = 200, service_fee = 24, cleaning_fee = 50, taxes = 21,
                total = 295\<rparr>"
    by code_simp
  with quote_read_only[of "Some (example_db calendar_open [])" "''U1''" "''2024-05-15''"
      "''2024-05-17''" 3]
  show ?thesis by simp
qed

subsection \<open>A failed \<^verbatim>\<open>create_booking\<close> changes nothing\<close>

lemma create_booking_error_frame:
  "fst (create_booking today file uid pid ci co g pm sr) = Inl err
   \<Longrightarrow> snd (create_booking today file uid pid ci co g pm sr) = file"
  by (simp add: create_booking_def Let_def split: option.splits sum.splits if_splits)

lemma create_booking_outcome:
  "(\<exists>err. create_booking today file uid pid ci co g pm sr = (Inl err, file))
   \<or> (\<exists>b db. create_booking today file uid pid ci co g pm sr = (Inr b, Some db))"
  by (simp add: create_booking_def Let_def save_db_def split: option.splits sum.splits)

text \<open>
  Claim C2.  Whenever \<^verbatim>\<open>create_booking\<close> raises, the file is the one that was loaded:
  no calendar entry, booking or user booking list has changed.  And it does raise on an
  unknown user, an unknown property, a payment method that is not the user's, a guest
  count above the capacity, a check-in date not before the check-out date, and a range
  holding a date that the calendar lacks or that is not \<^verbatim>\<open>available\<close>.
\<close>

theorem create_booking_atomic:
  "(\<forall>err. fst (create_booking today file uid pid ci co g pm sr) = Inl err \<longrightarrow>
      snd (create_booking today file uid pid ci co g pm sr) = file)
   \<and> (uid \<notin> dom (users (load_db file))
       \<or> pid \<notin> dom (properties (load_db file))
       \<or> pm \<notin> payment_methods (the (users (load_db file) uid))
       \<or> g > capacity_guests (the (properties (load_db file) pid))
       \<or> (\<exists>a b. strptime ci = Some a \<and> strptime co = Some b
             \<and> (b \<le> a
                 \<or> (\<exists>d. a \<le> d \<and> d < b
                       \<and> \<not> bookable (availability (the (properties (load_db file) pid))) d)))
      \<longrightarrow> (\<exists>err. create_booking today file uid pid ci co g pm sr = (Inl err, file)))"
proof (intro conjI allI impI)
  fix err
  assume "fst (create_booking today file uid pid ci co g pm sr) = Inl err"
  then show "snd (create_booking today file uid pid ci co g pm sr) = file"
    by (rule create_booking_error_frame)
next
  assume bad: "uid \<notin> dom (users (load_db file))
       \<or> pid \<notin> dom (properties (load_db file))
       \<or> pm \<notin> payment_methods (the (users (load_db file) uid))
       \<or> g > capacity_guests (the (properties (load_db file) pid))
       \<or> (\<exists>a b. strptime ci = Some a \<and> strptime co = Some b
             \<and> (b \<le> a
                 \<or> (\<exists>d. a \<le> d \<and> d < b
                       \<and> \<not> bookable (availability (the (properties (load_db file) pid))) d)))"
  show "\<exists>err. create_booking today file uid pid ci co g pm sr = (Inl err, file)"
  proof (rule ccontr)
    assume "\<not> ?thesis"
    with create_booking_outcome[of today "file" uid pid ci co g pm sr]
    obtain bk db where ok: "create_booking today file uid pid ci co g pm sr = (Inr bk, Some db)"
      by blast
    from ok have 1: "uid \<in> dom (users (load_db file))" "pid \<in> dom (properties (load_db file))"
      "pm \<in> payment_methods (the (users (load_db file) uid))"
      "\<not> g > capacity_guests (the (properties (load_db file) pid))"
      by (auto simp: create_booking_def Let_def split: if_splits)
    from ok 1 obtain a b t where 2: "strptime ci = Some a" "strptime co = Some b" "a < b"
      "check_availability (availability (the (properties (load_db file) pid))) a b 0 = Inr t"
      by (auto simp: create_booking_def Let_def split: if_splits option.splits sum.splits)
    from bad 1 2 obtain d where "a \<le> d" "d < b"
      "\<not> bookable (availability (the (properties (load_db file) pid))) d"
      by auto
    with check_availability_Inr_bookable[OF 2(4)] show False by blast
  qed
qed

text \<open>
  A request over 2024-05-15 to 2024-05-18 on the calendar that lacks 2024-05-16.
\<close>

theorem create_booking_atomic_witness:
  "create_booking 739000 (Some (example_db calendar_gap [])) ''user1'' ''U1''
       ''2024-05-15'' ''2024-05-18'' 2 ''pm1'' None
   = (Inl (ValueError ''Property not available on 2024-05-16''),
      Some (example_db calendar_gap []))"
proof -
  have p: "strptime ''2024-05-15'' = Some 739021" "strptime ''2024-05-18'' = Some 739024"
    by code_simp+
  have "\<not> bookable (availability (the (properties (load_db (Some (example_db calendar_gap [])))
           ''U1''))) 739022"
    by (simp add: bookable_def load_db_def example_db_def calendar_gap_def)
  with p have "\<exists>a b. strptime ''2024-05-15'' = Some a \<and> strptime ''2024-05-18'' = Some b
      \<and> (b \<le> a \<or> (\<exists>d. a \<le> d \<and> d < b
            \<and> \<not> bookable (availability (the (properties
                  (load_db (Some (example_db calendar_gap []))) ''U1''))) d))"
    by (intro exI[of _ 739021] exI[of _ 739024] conjI disjI2 exI[of _ 739022]) simp_all
  with create_booking_atomic[of 739000 "Some (example_db calendar_gap [])" "''user1''" "''U1''"
      "''2024-05-15''" "''2024-05-18''" 2 "''pm1''" None]
  obtain err where e: "create_booking 739000 (Some (example_db calendar_gap [])) ''user1''
       ''U1'' ''2024-05-15'' ''2024-05-18'' 2 ''pm1'' None
     = (Inl err, Some (example_db calendar_gap []))"
    by blast
  have "fst (create_booking 739000 (Some (example_db calendar_gap [])) ''user1'' ''U1''
       ''2024-05-15'' ''2024-05-18'' 2 ''pm1'' None)
     = Inl (ValueError ''Property not available on 2024-05-16'')"
    by code_simp
  with e show ?thesis by simp
qed

subsection \<open>The error for a range that cannot be booked\<close>

text \<open>
  Claim C7, as the code has it.  Both \<^verbatim>\<open>calculate_booking_cost\<close> and \<^verbatim>\<open>create_booking\<close>
  stop at the first date \<open>d\<close> of the range \<open>[a, b)\<close> that cannot be booked and raise
  \<^verbatim>\<open>ValueError("Property not available on <d>")\<close>.  The message is the same whether the
  calendar lacks the date or has it with a status other than \<^verbatim>\<open>available\<close>: the server
  has one kind of failure for the two cases.
\<close>

theorem unavailable_range_error:
  assumes "properties (load_db file) pid = Some prop"
    and "strptime ci = Some a" and "strptime co = Some b"
    and "a \<le> d" and "d < b"
    and "\<forall>d'. a \<le> d' \<and> d' < d \<longrightarrow> bookable (availability prop) d'"
    and "availability prop d = None
         \<or> (\<exists>day_info. availability prop d = Some day_info \<and> status day_info \<noteq> ''available'')"
  shows "calculate_booking_cost file pid ci co
           = (Inl (ValueError (''Property not available on '' @ strftime d)), file)
       \<and> (\<forall>usr. users (load_db file) uid = Some usr \<and> pm \<in> payment_methods usr
                  \<and> g \<le> capacity_guests prop
            \<longrightarrow> create_booking today file uid pid ci co g pm sr
                = (Inl (ValueError (''Property not available on '' @ strftime d)), file))"
proof -
  from assms(7) have nb: "\<not> bookable (availability prop) d"
    by (auto simp: bookable_def)
  have c: "check_availability (availability prop) a b t
           = Inl (ValueError (''Property not available on '' @ strftime d))" for t
    using assms(4,5) nb assms(6) by (rule check_availability_first_failure)
  then have n: "nightly_loop (availability prop) a b cs t
           = Inl (ValueError (''Property not available on '' @ strftime d))" for cs t
    by (simp add: nightly_loop_Inl_iff)
  from assms(4,5) have "a < b" by simp
  with assms(1,2,3) c n show ?thesis
    by (simp add: calculate_booking_cost_def create_booking_def dom_def)
qed

theorem unavailable_range_error_witness:
  "calculate_booking_cost (Some (example_db calendar_gap [])) ''U1'' ''2024-05-15'' ''2024-05-18''
     = (Inl (ValueError ''Property not available on 2024-05-16''),
        Some (example_db calendar_gap []))
   \<and> calculate_booking_cost (Some (example_db calendar_taken [])) ''U1'' ''2024-05-15''
       ''2024-05-18''
     = (Inl (ValueError ''Property not available on 2024-05-16''),
        Some (example_db calendar_taken []))"
proof -
  have p: "strptime ''2024-05-15'' = Some 739021" "strptime ''2024-05-18'' = Some 739024"
    "strftime 739022 = ''2024-05-16''"
    by code_simp+
  have first: "\<forall>d'. (739021::int) \<le> d' \<and> d' < 739022 \<longrightarrow> bookable calendar_gap d'"
    "\<forall>d'. (739021::int) \<le> d' \<and> d' < 739022 \<longrightarrow> bookable calendar_taken d'"
    by (auto simp: bookable_def calendar_gap_def calendar_taken_def open_day_def)
  have "calculate_booking_cost (Some (example_db calendar_gap [])) ''U1'' ''2024-05-15''
          ''2024-05-18''
        = (Inl (ValueError (''Property not available on '' @ strftime 739022)),
           Some (example_db calendar_gap []))"
    using unavailable_range_error[of "Some (example_db calendar_gap [])" "''U1''"
        "\<lparr>capacity_guests = 4, availability = calendar_gap\<rparr>" "''2024-05-15''" 739021
        "''2024-05-18''" 739024 739022] p first
    by (simp add: load_db_def example_db_def calendar_gap_def)
  moreover have "calculate_booking_cost (Some (example_db calendar_taken [])) ''U1''
          ''2024-05-15'' ''2024-05-18''
        = (Inl (ValueError (''Property not available on '' @ strftime 739022)),
           Some (example_db calendar_taken []))"
    using unavailable_range_error[of "Some (example_db calendar_taken [])" "''U1''"
        "\<lparr>capacity_guests = 4, availability = calendar_taken\<rparr>" "''2024-05-15''" 739021
        "''2024-05-18''" 739024 739022] p first
    by (simp add: load_db_def example_db_def calendar_taken_def taken_day_def)
  ultimately show ?thesis by (simp add: p)
qed

text \<open>
  The claim as the specification words it (two distinguishable kinds of failure) fails:
  a calendar that lacks 2024-05-16 and a calendar that has it booked give the very same
  error, from the quote and from the booking.
\<close>

theorem distinct_range_errors_counterexample:
  "calendar_gap 739022 = None
   \<and> map_option status (calendar_taken 739022) = Some ''booked''
   \<and> fst (calculate_booking_cost (Some (example_db calendar_gap [])) ''U1'' ''2024-05-15''
        ''2024-05-18'')
     = Inl (ValueError ''Property not available on 2024-05-16'')
   \<and> fst (calculate_booking_cost (Some (example_db calendar_taken [])) ''U1'' ''2024-05-15''
        ''2024-05-18'')
     = Inl (ValueError ''Property not available on 2024-05-16'')
   \<and> fst (create_booking 739000 (Some (example_db calendar_gap [])) ''user1'' ''U1''
        ''2024-05-15'' ''2024-05-18'' 2 ''pm1'' None)
     = Inl (ValueError ''Property not available on 2024-05-16'')
   \<and> fst (create_booking 739000 (Some (example_db calendar_taken [])) ''user1'' ''U1''
        ''2024-05-15'' ''2024-05-18'' 2 ''pm1'' None)
     = Inl (ValueError ''Property not available on 2024-05-16'')"
  by code_simp

subsection \<open>The contract of \<^verbatim>\<open>cancel_booking\<close>\<close>

lemma cancel_booking_success:
  assumes "map_of (bookings (load_db file)) bid = Some b"
    and "booking_status b \<noteq> ''cancelled''" and "booking_status b \<noteq> ''completed''"
    and "properties (load_db file) (property_id b) = Some prop"
    and "strptime (check_in_date b) = Some a" and "strptime (check_out_date b) = Some c"
  shows "cancel_booking today file bid reason =
     (Inr (b\<lparr>booking_status := ''cancelled'', cancellation_reason := Some reason,
             cancellation_date := Some (strftime today)\<rparr>),
      Some ((load_db file)
        \<lparr>bookings := AList.update bid
           (b\<lparr>booking_status := ''cancelled'', cancellation_reason := Some reason,
              cancellation_date := Some (strftime today)\<rparr>) (bookings (load_db file)),
         properties := (properties (load_db file))(property_id b \<mapsto>
           prop\<lparr>availability := set_status ''available'' a c (availability prop)\<rparr>)\<rparr>))"
  using assms
  by (simp add: cancel_booking_def Let_def save_db_def free_dates_set_status)

lemma cancel_booking_error_frame:
  "fst (cancel_booking today file bid reason) = Inl err
   \<Longrightarrow> snd (cancel_booking today file bid reason) = file"
  by (simp add: cancel_booking_def Let_def split: option.splits sum.splits if_splits)

text \<open>
  Claim C6.  \<^verbatim>\<open>cancel_booking\<close> raises "Booking ... not found" for an unknown id,
  "Booking is already cancelled" for a cancelled booking and "Cannot cancel completed
  booking" for a completed one, the file being left as it was.  Otherwise, for a
  booking whose property is in the database and whose stored dates are dates \<open>a\<close> and
  \<open>c\<close>, it returns the booking with status \<^verbatim>\<open>cancelled\<close>, the reason and the day of the
  cancellation, and saves the database in which the booking is replaced by that one
  and every date of \<open>[a, c)\<close> that the property's calendar has is \<^verbatim>\<open>available\<close>; a date
  that the calendar lacks stays absent, and nothing else changes.
\<close>

theorem cancel_contract:
  "(map_of (bookings (load_db file)) bid = None \<longrightarrow>
      cancel_booking today file bid reason
      = (Inl (ValueError (''Booking '' @ bid @ '' not found'')), file))
   \<and> (\<forall>b. map_of (bookings (load_db file)) bid = Some b \<longrightarrow>
        (booking_status b = ''cancelled'' \<longrightarrow>
           cancel_booking today file bid reason
           = (Inl (ValueError ''Booking is already cancelled''), file))
      \<and> (booking_status b = ''completed'' \<longrightarrow>
           cancel_booking today file bid reason
           = (Inl (ValueError ''Cannot cancel completed booking''), file))
      \<and> (booking_status b \<noteq> ''cancelled'' \<and> booking_status b \<noteq> ''completed'' \<longrightarrow>
           (\<forall>prop a c.
              properties (load_db file) (property_id b) = Some prop
              \<and> strptime (check_in_date b) = Some a \<and> strptime (check_out_date b) = Some c
              \<longrightarrow> cancel_booking today file bid reason
                  = (Inr (b\<lparr>booking_status := ''cancelled'', cancellation_reason := Some reason,
                           cancellation_date := Some (strftime today)\<rparr>),
                     Some ((load_db file)
                       \<lparr>bookings := AList.update bid
                          (b\<lparr>booking_status := ''cancelled'',
                             cancellation_reason := Some reason,
                             cancellation_date := Some (strftime today)\<rparr>)
                          (bookings (load_db file)),
                        properties := (properties (load_db file))(property_id b \<mapsto>
                          prop\<lparr>availability :=
                            (\<lambda>d. if a \<le> d \<and> d < c
                                 then map_option (\<lambda>day_info. day_info\<lparr>status := ''available''\<rparr>)
                                        (availability prop d)
                                 else availability prop d)\<rparr>)\<rparr>)))))"
proof (intro conjI allI impI)
  assume "map_of (bookings (load_db file)) bid = None"
  then show "cancel_booking today file bid reason
      = (Inl (ValueError (''Booking '' @ bid @ '' not found'')), file)"
    by (simp add: cancel_booking_def)
next
  fix b
  assume "map_of (bookings (load_db file)) bid = Some b" "booking_status b = ''cancelled''"
  then show "cancel_booking today file bid reason
           = (Inl (ValueError ''Booking is already cancelled''), file)"
    by (simp add: cancel_booking_def)
next
  fix b
  assume "map_of (bookings (load_db file)) bid = Some b" "booking_status b = ''completed''"
  then show "cancel_booking today file bid reason
           = (Inl (ValueError ''Cannot cancel completed booking''), file)"
    by (simp add: cancel_booking_def)
next
  fix b pr a c
  assume "map_of (bookings (load_db file)) bid = Some b"
    and "booking_status b \<noteq> ''cancelled'' \<and> booking_status b \<noteq> ''completed''"
    and "properties (load_db file) (property_id b) = Some pr
         \<and> strptime (check_in_date b) = Some a \<and> strptime (check_out_date b) = Some c"
  then show "cancel_booking today file bid reason
     = (Inr (b\<lparr>booking_status := ''cancelled'', cancellation_reason := Some reason,
              cancellation_date := Some (strftime today)\<rparr>),
        Some ((load_db file)
          \<lparr>bookings := AList.update bid
             (b\<lparr>booking_status := ''cancelled'', cancellation_reason := Some reason,
                cancellation_date := Some (strftime today)\<rparr>) (bookings (load_db file)),
           properties := (properties (load_db file))(property_id b \<mapsto>
             pr\<lparr>availability :=
               (\<lambda>d. if a \<le> d \<and> d < c
                    then map_option (\<lambda>day_info. day_info\<lparr>status := ''available''\<rparr>)
                           (availability pr d)
                    else availability pr d)\<rparr>)\<rparr>))"
    using cancel_booking_success[of "file" bid b pr a c today reason]
    by (simp add: set_status_def)
qed

text \<open>
  On the calendar that lacks 2024-05-16, cancelling the booking of 2024-05-15 to
  2024-05-17 marks 2024-05-15 and leaves 2024-05-16 absent.
\<close>

theorem cancel_contract_witness:
  "cancel_booking 739030 (Some (example_db calendar_gap [(''BOOK0001'', pending_booking)]))
       ''BOOK0001'' ''plans changed''
   = (Inr (pending_booking\<lparr>booking_status := ''cancelled'',
             cancellation_reason := Some ''plans changed'',
             cancellation_date := Some ''2024-05-24''\<rparr>),
      Some ((example_db calendar_gap [(''BOOK0001'', pending_booking)])
        \<lparr>bookings := [(''BOOK0001'', pending_booking\<lparr>booking_status := ''cancelled'',
             cancellation_reason := Some ''plans changed'',
             cancellation_date := Some ''2024-05-24''\<rparr>)],
         properties := [''U1'' \<mapsto> \<lparr>capacity_guests = 4,
           availability = (\<lambda>d. if 739021 \<le> d \<and> d < 739023
              then map_option (\<lambda>day_info. day_info\<lparr>status := ''available''\<rparr>) (calendar_gap d)
              else calendar_gap d)\<rparr>]\<rparr>))
   \<and> (if (739021::int) \<le> 739022 \<and> (739022::int) < 739023
       then map_option (\<lambda>day_info. day_info\<lparr>status := ''available''\<rparr>) (calendar_gap 739022)
       else calendar_gap 739022) = None
   \<and> cancel_booking 739030 (Some (example_db calendar_gap [(''BOOK0001'', pending_booking)]))
       ''BOOK999'' ''plans changed''
     = (Inl (ValueError ''Booking BOOK999 not found''),
        Some (example_db calendar_gap [(''BOOK0001'', pending_booking)]))"
proof -
  have "map_of (bookings (load_db (Some (example_db calendar_gap
             [(''BOOK0001'', pending_booking)])))) ''BOOK999'' = None"
    by (simp add: load_db_def example_db_def)
  with cancel_contract[of "Some (example_db calendar_gap [(''BOOK0001'', pending_booking)])"
      "''BOOK999''" 739030 "''plans changed''"]
  have unknown: "cancel_booking 739030
       (Some (example_db calendar_gap [(''BOOK0001'', pending_booking)]))
       ''BOOK999'' ''plans changed''
     = (Inl (ValueError ''Booking BOOK999 not found''),
        Some (example_db calendar_gap [(''BOOK0001'', pending_booking)]))"
    by simp
  have p: "strptime ''2024-05-15'' = Some 739021" "strptime ''2024-05-17'' = Some 739023"
    "strftime 739030 = ''2024-05-24''"
    by code_simp+
  have l: "map_of (bookings (load_db (Some (example_db calendar_gap
             [(''BOOK0001'', pending_booking)])))) ''BOOK0001'' = Some pending_booking"
    by (simp add: load_db_def example_db_def)
  have s: "booking_status pending_booking \<noteq> ''cancelled''
           \<and> booking_status pending_booking \<noteq> ''completed''"
    by (simp add: pending_booking_def)
  have q: "properties (load_db (Some (example_db calendar_gap
             [(''BOOK0001'', pending_booking)]))) (property_id pending_booking)
           = Some \<lparr>capacity_guests = 4, availability = calendar_gap\<rparr>
         \<and> strptime (check_in_date pending_booking) = Some 739021
         \<and> strptime (check_out_date pending_booking) = Some 739023"
    using p by (simp add: load_db_def example_db_def pending_booking_def)
  from cancel_contract[of "Some (example_db calendar_gap [(''BOOK0001'', pending_booking)])"
      "''BOOK0001''" 739030 "''plans changed''"] l s q
  have "cancel_booking 739030 (Some (example_db calendar_gap [(''BOOK0001'', pending_booking)]))
       ''BOOK0001'' ''plans changed''
     = (Inr (pending_booking\<lparr>booking_status := ''cancelled'',
               cancellation_reason := Some ''plans changed'',
               cancellation_date := Some (strftime 739030)\<rparr>),
        Some ((load_db (Some (example_db calendar_gap [(''BOOK0001'', pending_booking)])))
          \<lparr>bookings := AList.update ''BOOK0001''
             (pending_booking\<lparr>booking_status := ''cancelled'',
                cancellation_reason := Some ''plans changed'',
                cancellation_date := Some (strftime 739030)\<rparr>)
             (bookings (load_db (Some (example_db calendar_gap
                [(''BOOK0001'', pending_booking)])))),
           properties := (properties (load_db (Some (example_db calendar_gap
                [(''BOOK0001'', pending_booking)]))))(property_id pending_booking \<mapsto>
             \<lparr>capacity_guests = 4, availability = calendar_gap\<rparr>
               \<lparr>availability :=
                 (\<lambda>d. if 739021 \<le> d \<and> d < 739023
                      then map_option (\<lambda>day_info. day_info\<lparr>status := ''available''\<rparr>)
                             (availability \<lparr>capacity_guests = 4, availability = calendar_gap\<rparr> d)
                      else availability \<lparr>capacity_guests = 4, availability = calendar_gap\<rparr> d)\<rparr>)\<rparr>))"
    by blast
  with unknown show ?thesis
    by (simp add: p load_db_def example_db_def pending_booking_def calendar_gap_def
        cong del: if_weak_cong)
qed

subsection \<open>What a successful \<^verbatim>\<open>create_booking\<close> does\<close>

lemma create_booking_success:
  assumes "create_booking today file uid pid ci co g pm sr = (Inr bk, file')"
  obtains usr pr a c new_id where
    "users (load_db file) uid = Some usr" "properties (load_db file) pid = Some pr"
    "pm \<in> payment_methods usr" "g \<le> capacity_guests pr"
    "strptime ci = Some a" "strptime co = Some c" "a < c"
    "\<forall>d. a \<le> d \<and> d < c \<longrightarrow> bookable (availability pr) d"
    "check_availability (availability pr) a c 0 = Inr (total_price bk)"
    "get_next_booking_id (load_db file) = Inr new_id"
    "booking_id bk = new_id" "property_id bk = pid" "check_in_date bk = ci"
    "check_out_date bk = co" "booking_status bk = ''confirmed''" "nights bk = c - a"
    "file' = Some ((load_db file)
       \<lparr>bookings := AList.update new_id bk (bookings (load_db file)),
        users := (users (load_db file))(uid \<mapsto>
          usr\<lparr>user_bookings := user_bookings usr @ [new_id]\<rparr>),
        properties := (properties (load_db file))(pid \<mapsto>
          pr\<lparr>availability := set_status ''booked'' a c (availability pr)\<rparr>)\<rparr>)"
proof -
  from assms have d: "uid \<in> dom (users (load_db file))" "pid \<in> dom (properties (load_db file))"
    by (auto simp: create_booking_def Let_def split: if_splits)
  then obtain usr pr where up: "users (load_db file) uid = Some usr"
      "properties (load_db file) pid = Some pr"
    by auto
  from assms up have v: "pm \<in> payment_methods usr" "g \<le> capacity_guests pr"
    by (auto simp: create_booking_def Let_def dom_def split: if_splits)
  from assms up v obtain a c where ac: "strptime ci = Some a" "strptime co = Some c" "a < c"
    by (auto simp: create_booking_def Let_def dom_def split: if_splits option.splits)
  from assms up v ac obtain t where t: "check_availability (availability pr) a c 0 = Inr t"
    by (auto simp: create_booking_def Let_def dom_def split: if_splits sum.splits)
  from assms up v ac t obtain new_id where n: "get_next_booking_id (load_db file) = Inr new_id"
    by (auto simp: create_booking_def Let_def dom_def split: if_splits sum.splits)
  have bk: "\<forall>d. a \<le> d \<and> d < c \<longrightarrow> bookable (availability pr) d"
    using check_availability_Inr_bookable[OF t] by blast
  then have "\<forall>d. a \<le> d \<and> d < c \<longrightarrow> availability pr d \<noteq> None"
    using bookable_dom by blast
  then have m: "mark_booked (availability pr) a c
                = Inr (set_status ''booked'' a c (availability pr))"
    by (rule mark_booked_set_status)
  from assms up v ac t n m have r:
    "bk = \<lparr>booking_id = new_id, user_id = uid, property_id = pid,
           check_in_date = ci, check_out_date = co,
           nights = c - a, guest_count = g,
           booking_status = ''confirmed'', total_price = t,
           booking_date = strftime today, payment_method_id = pm,
           special_requests = sr, cancellation_policy = ''moderate'',
           host_notes = '''', cancellation_reason = None, cancellation_date = None\<rparr>"
    "file' = Some ((load_db file)
       \<lparr>bookings := AList.update new_id bk (bookings (load_db file)),
        users := (users (load_db file))(uid \<mapsto>
          usr\<lparr>user_bookings := user_bookings usr @ [new_id]\<rparr>),
        properties := (properties (load_db file))(pid \<mapsto>
          pr\<lparr>availability := set_status ''booked'' a c (availability pr)\<rparr>)\<rparr>)"
    by (auto simp: create_booking_def Let_def dom_def save_db_def)
  from r(1) have f: "booking_id bk = new_id" "property_id bk = pid" "check_in_date bk = ci"
    "check_out_date bk = co" "booking_status bk = ''confirmed''" "nights bk = c - a"
    "total_price bk = t"
    by simp_all
  show thesis
    using that[OF up v ac bk _ n f(1-6) r(2)] t f(7) by simp
qed

lemma create_booking_succeeds:
  assumes "users (load_db file) uid = Some usr" "properties (load_db file) pid = Some pr"
    and "pm \<in> payment_methods usr" "g \<le> capacity_guests pr"
    and "strptime ci = Some a" "strptime co = Some c" "a < c"
    and "\<forall>d. a \<le> d \<and> d < c \<longrightarrow> bookable (availability pr) d"
    and "get_next_booking_id (load_db file) = Inr new_id"
  shows "\<exists>bk db. create_booking today file uid pid ci co g pm sr = (Inr bk, Some db)
           \<and> booking_status bk = ''confirmed'' \<and> booking_id bk = new_id"
proof -
  from assms(8) obtain t where t: "check_availability (availability pr) a c 0 = Inr t"
    using check_availability_all_bookable by blast
  from assms(8) have "\<forall>d. a \<le> d \<and> d < c \<longrightarrow> availability pr d \<noteq> None"
    using bookable_dom by blast
  then have m: "mark_booked (availability pr) a c
                = Inr (set_status ''booked'' a c (availability pr))"
    by (rule mark_booked_set_status)
  from assms t m show ?thesis
    by (simp add: create_booking_def Let_def dom_def save_db_def)
qed

lemma set_update_cases:
  "distinct (map fst al) \<Longrightarrow> (k', v') \<in> set (AList.update k v al)
   \<Longrightarrow> (k', v') = (k, v) \<or> ((k', v') \<in> set al \<and> k' \<noteq> k)"
  by (induction al) (force split: if_splits)+

subsection \<open>The bookings and the calendar stay consistent\<close>

lemma not_bookable_booked:
  "a \<le> d \<Longrightarrow> d < c \<Longrightarrow> \<not> bookable (set_status ''booked'' a c av) d"
  by (auto simp: bookable_def set_status_def split: option.splits)

lemma not_bookable_set_booked:
  "\<not> bookable av d \<Longrightarrow> \<not> bookable (set_status ''booked'' a c av) d"
  by (auto simp: bookable_def set_status_def split: option.splits)

lemma set_status_outside:
  "\<not> (a \<le> d \<and> d < c) \<Longrightarrow> set_status s a c av d = av d"
  by (auto simp: set_status_def)

lemma no_double_bookingD:
  "no_double_booking db \<Longrightarrow> (k1, b1) \<in> set (bookings db) \<Longrightarrow> (k2, b2) \<in> set (bookings db)
   \<Longrightarrow> k1 \<noteq> k2 \<Longrightarrow> active b1 \<Longrightarrow> active b2 \<Longrightarrow> property_id b1 = property_id b2
   \<Longrightarrow> set (booking_nights b1) \<inter> set (booking_nights b2) = {}"
  unfolding no_double_booking_def by fast

lemma calendar_agreesD:
  "calendar_agrees db \<Longrightarrow> (k, b) \<in> set (bookings db) \<Longrightarrow> active b
   \<Longrightarrow> properties db (property_id b) = Some pr \<Longrightarrow> d \<in> set (booking_nights b)
   \<Longrightarrow> \<not> bookable (availability pr) d"
  unfolding calendar_agrees_def by fastforce

lemma booking_nights_iff:
  "strptime (check_in_date b) = Some a \<Longrightarrow> strptime (check_out_date b) = Some c
   \<Longrightarrow> d \<in> set (booking_nights b) \<longleftrightarrow> a \<le> d \<and> d < c"
  by (auto simp: booking_nights_def)

lemma consistent_create:
  assumes con: "consistent (load_db file)"
    and ok: "create_booking today file uid pid ci co g pm sr = (Inr bk, file')"
  shows "consistent (load_db file')"
proof -
  define db where "db = load_db file"
  from ok obtain usr pr a c new_id where
    pr: "properties db pid = Some pr"
    and ac: "strptime ci = Some a" "strptime co = Some c"
    and free: "\<forall>d. a \<le> d \<and> d < c \<longrightarrow> bookable (availability pr) d"
    and bk: "property_id bk = pid" "check_in_date bk = ci" "check_out_date bk = co"
    and file': "file' = Some (db
       \<lparr>bookings := AList.update new_id bk (bookings db),
        users := (users db)(uid \<mapsto> usr\<lparr>user_bookings := user_bookings usr @ [new_id]\<rparr>),
        properties := (properties db)(pid \<mapsto>
          pr\<lparr>availability := set_status ''booked'' a c (availability pr)\<rparr>)\<rparr>)"
    unfolding db_def by (rule create_booking_success)
  define db' where "db' = load_db file'"
  have bs': "bookings db' = AList.update new_id bk (bookings db)"
    and ps': "properties db' = (properties db)(pid \<mapsto>
          pr\<lparr>availability := set_status ''booked'' a c (availability pr)\<rparr>)"
    by (simp_all add: db'_def file' load_db_def)
  from con have dist: "distinct (map fst (bookings db))"
    and agree: "calendar_agrees db" and ndb: "no_double_booking db"
    by (simp_all add: consistent_def db_def)
  have nights_bk: "d \<in> set (booking_nights bk) \<longleftrightarrow> a \<le> d \<and> d < c" for d
    using ac bk by (simp add: booking_nights_iff)
  have split: "(k, b) = (new_id, bk) \<or> ((k, b) \<in> set (bookings db) \<and> k \<noteq> new_id)"
    if "(k, b) \<in> set (bookings db')" for k b
    using that dist unfolding bs' by (rule set_update_cases[rotated])
  have old_blocked: "\<not> bookable (availability pr) d"
    if "(k, b) \<in> set (bookings db)" "active b" "property_id b = pid" "d \<in> set (booking_nights b)"
    for k b d
    using agree that pr by (auto dest: calendar_agreesD)
  have old_disjoint: "set (booking_nights b) \<inter> set (booking_nights bk) = {}"
    if "(k, b) \<in> set (bookings db)" "active b" "property_id b = pid" for k b
    using old_blocked[OF that] free nights_bk by blast
  have "distinct (map fst (bookings db'))"
    unfolding bs' using dist by (rule distinct_update)
  moreover have "calendar_agrees db'"
    unfolding calendar_agrees_def
  proof (intro ballI, clarify)
    fix k b
    assume in': "(k, b) \<in> set (bookings db')" and act: "active b"
    show "case properties db' (property_id b) of None \<Rightarrow> True
          | Some prop \<Rightarrow> \<forall>d\<in>set (booking_nights b). \<not> bookable (availability prop) d"
    proof (cases "property_id b = pid")
      case other: False
      with in' act split[OF in'] bk agree show ?thesis
        by (auto simp: ps' calendar_agrees_def)
    next
      case same: True
      have "\<not> bookable (set_status ''booked'' a c (availability pr)) d"
        if d: "d \<in> set (booking_nights b)" for d
        using split[OF in']
      proof
        assume "(k, b) = (new_id, bk)"
        with d nights_bk show ?thesis by (simp add: not_bookable_booked)
      next
        assume "(k, b) \<in> set (bookings db) \<and> k \<noteq> new_id"
        with old_blocked[of k b d] act same d show ?thesis
          by (simp add: not_bookable_set_booked)
      qed
      with same show ?thesis by (simp add: ps')
    qed
  qed
  moreover have "no_double_booking db'"
    unfolding no_double_booking_def
  proof (intro ballI, clarify)
    fix k1 b1 k2 b2
    assume in1: "(k1, b1) \<in> set (bookings db')" and in2: "(k2, b2) \<in> set (bookings db')"
      and ne: "k1 \<noteq> k2" and act: "active b1" "active b2"
      and same: "property_id b1 = property_id b2"
    from split[OF in1] split[OF in2]
    show "set (booking_nights b1) \<inter> set (booking_nights b2) = {}"
    proof (elim disjE)
      assume "(k1, b1) = (new_id, bk)" "(k2, b2) = (new_id, bk)"
      with ne show ?thesis by simp
    next
      assume "(k1, b1) = (new_id, bk)" and "(k2, b2) \<in> set (bookings db) \<and> k2 \<noteq> new_id"
      with old_disjoint[of k2 b2] act same bk show ?thesis by auto
    next
      assume "(k1, b1) \<in> set (bookings db) \<and> k1 \<noteq> new_id" and "(k2, b2) = (new_id, bk)"
      with old_disjoint[of k1 b1] act same bk show ?thesis by auto
    next
      assume "(k1, b1) \<in> set (bookings db) \<and> k1 \<noteq> new_id"
        and "(k2, b2) \<in> set (bookings db) \<and> k2 \<noteq> new_id"
      with ndb ne act same show ?thesis
        by (auto dest: no_double_bookingD)
    qed
  qed
  ultimately show ?thesis
    by (simp add: consistent_def db'_def)
qed

lemma cancel_booking_Inr:
  assumes "cancel_booking today file bid reason = (Inr b', file')"
  obtains b pr a c where
    "map_of (bookings (load_db file)) bid = Some b"
    "booking_status b \<noteq> ''cancelled''" "booking_status b \<noteq> ''completed''"
    "properties (load_db file) (property_id b) = Some pr"
    "strptime (check_in_date b) = Some a" "strptime (check_out_date b) = Some c"
    "b' = b\<lparr>booking_status := ''cancelled'', cancellation_reason := Some reason,
            cancellation_date := Some (strftime today)\<rparr>"
    "file' = Some ((load_db file)
        \<lparr>bookings := AList.update bid b' (bookings (load_db file)),
         properties := (properties (load_db file))(property_id b \<mapsto>
           pr\<lparr>availability := set_status ''available'' a c (availability pr)\<rparr>)\<rparr>)"
proof -
  from assms obtain b where b: "map_of (bookings (load_db file)) bid = Some b"
    by (auto simp: cancel_booking_def Let_def split: option.splits)
  from assms b have s: "booking_status b \<noteq> ''cancelled''" "booking_status b \<noteq> ''completed''"
    by (auto simp: cancel_booking_def Let_def split: if_splits)
  from assms b s obtain pr where pr: "properties (load_db file) (property_id b) = Some pr"
    by (auto simp: cancel_booking_def Let_def split: option.splits)
  from assms b s pr obtain a c where ac: "strptime (check_in_date b) = Some a"
      "strptime (check_out_date b) = Some c"
    by (auto simp: cancel_booking_def Let_def split: option.splits)
  from cancel_booking_success[OF b s pr ac, of today reason] assms
  show thesis
    using that[OF b s pr ac] by simp
qed

lemma consistent_cancel:
  assumes con: "consistent (load_db file)"
    and ok: "cancel_booking today file bid reason = (Inr b', file')"
  shows "consistent (load_db file')"
proof -
  define db where "db = load_db file"
  from ok obtain b pr a c where
    b: "map_of (bookings db) bid = Some b" and st: "booking_status b \<noteq> ''cancelled''"
    and pr: "properties db (property_id b) = Some pr"
    and ac: "strptime (check_in_date b) = Some a" "strptime (check_out_date b) = Some c"
    and b': "b' = b\<lparr>booking_status := ''cancelled'', cancellation_reason := Some reason,
            cancellation_date := Some (strftime today)\<rparr>"
    and file': "file' = Some (db
        \<lparr>bookings := AList.update bid b' (bookings db),
         properties := (properties db)(property_id b \<mapsto>
           pr\<lparr>availability := set_status ''available'' a c (availability pr)\<rparr>)\<rparr>)"
    unfolding db_def by (rule cancel_booking_Inr)
  define db' where "db' = load_db file'"
  have bs': "bookings db' = AList.update bid b' (bookings db)"
    and ps': "properties db' = (properties db)(property_id b \<mapsto>
           pr\<lparr>availability := set_status ''available'' a c (availability pr)\<rparr>)"
    by (simp_all add: db'_def file' load_db_def)
  from con have dist: "distinct (map fst (bookings db))"
    and agree: "calendar_agrees db" and ndb: "no_double_booking db"
    by (simp_all add: consistent_def db_def)
  from b have inb: "(bid, b) \<in> set (bookings db)" by (rule map_of_SomeD)
  from st have actb: "active b" by (simp add: active_def)
  from b' have nact: "\<not> active b'" by (simp add: active_def)
  have nights_b: "d \<in> set (booking_nights b) \<longleftrightarrow> a \<le> d \<and> d < c" for d
    using ac by (simp add: booking_nights_iff)
  have old: "(k, b2) \<in> set (bookings db) \<and> k \<noteq> bid"
    if "(k, b2) \<in> set (bookings db')" "active b2" for k b2
    using set_update_cases[OF dist, of k b2 bid b'] that nact by (auto simp: bs')
  have "distinct (map fst (bookings db'))"
    unfolding bs' using dist by (rule distinct_update)
  moreover have "calendar_agrees db'"
    unfolding calendar_agrees_def
  proof (intro ballI, clarify)
    fix k b2
    assume in': "(k, b2) \<in> set (bookings db')" and act: "active b2"
    from old[OF in' act] have in2: "(k, b2) \<in> set (bookings db)" and ne: "k \<noteq> bid" by auto
    show "case properties db' (property_id b2) of None \<Rightarrow> True
          | Some prop \<Rightarrow> \<forall>d\<in>set (booking_nights b2). \<not> bookable (availability prop) d"
    proof (cases "property_id b2 = property_id b")
      case False
      with in2 act agree show ?thesis
        by (auto simp: ps' calendar_agrees_def)
    next
      case same: True
      from ndb in2 inb ne act actb same
      have disj: "set (booking_nights b2) \<inter> set (booking_nights b) = {}"
        by (rule no_double_bookingD)
      have "\<not> bookable (set_status ''available'' a c (availability pr)) d"
        if d: "d \<in> set (booking_nights b2)" for d
      proof -
        from d disj nights_b have out: "\<not> (a \<le> d \<and> d < c)" by blast
        from agree in2 act same pr d have "\<not> bookable (availability pr) d"
          by (auto dest: calendar_agreesD)
        with out show ?thesis
          by (simp add: bookable_def set_status_outside)
      qed
      with same show ?thesis by (simp add: ps')
    qed
  qed
  moreover have "no_double_booking db'"
    unfolding no_double_booking_def
  proof (intro ballI, clarify)
    fix k1 b1 k2 b2
    assume "(k1, b1) \<in> set (bookings db')" "(k2, b2) \<in> set (bookings db')"
      and "k1 \<noteq> k2" "active b1" "active b2" "property_id b1 = property_id b2"
    with old[of k1 b1] old[of k2 b2] ndb
    show "set (booking_nights b1) \<inter> set (booking_nights b2) = {}"
      by (auto dest: no_double_bookingD)
  qed
  ultimately show ?thesis
    by (simp add: consistent_def db'_def)
qed

lemma cancel_booking_outcome:
  "(\<exists>err. cancel_booking today file bid reason = (Inl err, file))
   \<or> (\<exists>b db. cancel_booking today file bid reason = (Inr b, Some db))"
  by (simp add: cancel_booking_def Let_def save_db_def split: option.splits)

lemma consistent_reachable:
  assumes "reachable file0 file" and "consistent (load_db file0)"
  shows "consistent (load_db file)"
  using assms
proof (induction rule: reachable.induct)
  case start
  then show ?case by simp
next
  case (book f today uid pid ci co g pm sr)
  from create_booking_outcome[of today f uid pid ci co g pm sr] show ?case
  proof (elim disjE exE)
    fix err assume "create_booking today f uid pid ci co g pm sr = (Inl err, f)"
    with book show ?thesis by simp
  next
    fix b db assume "create_booking today f uid pid ci co g pm sr = (Inr b, Some db)"
    with consistent_create[of f today uid pid ci co g pm sr b "Some db"] book
    show ?thesis by simp
  qed
next
  case (cancel f today bid reason)
  from cancel_booking_outcome[of today f bid reason] show ?case
  proof (elim disjE exE)
    fix err assume "cancel_booking today f bid reason = (Inl err, f)"
    with cancel show ?thesis by simp
  next
    fix b db assume "cancel_booking today f bid reason = (Inr b, Some db)"
    with consistent_cancel[of f today bid reason b "Some db"] cancel
    show ?thesis by simp
  qed
qed

subsection \<open>No double booking\<close>

lemma quote_unbookable:
  assumes "properties (load_db file) pid = Some pr"
    and "strptime ci = Some a" "strptime co = Some c"
    and "a \<le> d0" "d0 < c" "\<not> bookable (availability pr) d0"
  shows "\<exists>d. a \<le> d \<and> d < c \<and> calculate_booking_cost file pid ci co
           = (Inl (ValueError (''Property not available on '' @ strftime d)), file)"
proof -
  from assms(4-6) obtain d where d: "a \<le> d" "d < c" "\<not> bookable (availability pr) d"
      "\<forall>d'. a \<le> d' \<and> d' < d \<longrightarrow> bookable (availability pr) d'"
    by (rule first_unbookable)
  then have "nightly_loop (availability pr) a c [] 0
             = Inl (ValueError (''Property not available on '' @ strftime d))"
    by (simp add: nightly_loop_Inl_iff check_availability_first_failure)
  moreover from d have "a < c" by simp
  ultimately have "calculate_booking_cost file pid ci co
           = (Inl (ValueError (''Property not available on '' @ strftime d)), file)"
    using assms(1-3) by (simp add: calculate_booking_cost_def dom_def)
  with d show ?thesis by blast
qed

lemma book_unbookable:
  assumes "properties (load_db file) pid = Some pr"
    and "strptime ci = Some a" "strptime co = Some c"
    and "a \<le> d0" "d0 < c" "\<not> bookable (availability pr) d0"
  shows "\<exists>err. create_booking today file uid pid ci co g pm sr = (Inl err, file)"
proof (rule ccontr)
  assume "\<not> ?thesis"
  with create_booking_outcome[of today "file" uid pid ci co g pm sr]
  obtain bk db where ok: "create_booking today file uid pid ci co g pm sr = (Inr bk, Some db)"
    by blast
  then obtain pr' a' c' where "properties (load_db file) pid = Some pr'"
      "strptime ci = Some a'" "strptime co = Some c'"
      "\<forall>d. a' \<le> d \<and> d < c' \<longrightarrow> bookable (availability pr') d"
    by (rule create_booking_success)
  with assms show False by simp
qed

lemma booked_after_create:
  assumes "create_booking today file uid pid ci co g pm sr = (Inr bk, file')"
  shows "booking_nights bk \<noteq> []
     \<and> (\<forall>d \<in> set (booking_nights bk).
          map_option status (availability (the (properties (load_db file') pid)) d)
          = Some ''booked'')"
proof -
  from assms obtain usr pr a c new_id where
    ac: "strptime ci = Some a" "strptime co = Some c" "a < c"
    and free: "\<forall>d. a \<le> d \<and> d < c \<longrightarrow> bookable (availability pr) d"
    and bk: "check_in_date bk = ci" "check_out_date bk = co"
    and file': "file' = Some ((load_db file)
       \<lparr>bookings := AList.update new_id bk (bookings (load_db file)),
        users := (users (load_db file))(uid \<mapsto>
          usr\<lparr>user_bookings := user_bookings usr @ [new_id]\<rparr>),
        properties := (properties (load_db file))(pid \<mapsto>
          pr\<lparr>availability := set_status ''booked'' a c (availability pr)\<rparr>)\<rparr>)"
    by (rule create_booking_success)
  have n: "booking_nights bk = [a..c - 1]"
    using ac bk by (simp add: booking_nights_def)
  have "map_option status (set_status ''booked'' a c (availability pr) d) = Some ''booked''"
    if "a \<le> d" "d < c" for d
  proof -
    from free that obtain e where "availability pr d = Some e"
      using bookable_dom by blast
    with that show ?thesis by (simp add: set_status_def)
  qed
  with n ac(3) show ?thesis
    by (simp add: file' load_db_def)
qed

text \<open>
  Two bookings made one after the other: when the first succeeds, a second one of the
  same property over a range that holds a night of the first fails and changes nothing,
  whatever the database was.
\<close>

lemma second_overlapping_booking_fails:
  assumes first: "create_booking today file uid pid ci co g pm sr = (Inr bk, file1)"
    and range: "strptime ci2 = Some a2" "strptime co2 = Some c2"
    and overlap: "d \<in> set (booking_nights bk)" "a2 \<le> d" "d < c2"
  shows "\<exists>err. create_booking today2 file1 uid2 pid ci2 co2 g2 pm2 sr2 = (Inl err, file1)"
proof -
  from first obtain usr pr a c new_id where
    ac: "strptime ci = Some a" "strptime co = Some c"
    and bk: "check_in_date bk = ci" "check_out_date bk = co"
    and file1: "file1 = Some ((load_db file)
       \<lparr>bookings := AList.update new_id bk (bookings (load_db file)),
        users := (users (load_db file))(uid \<mapsto>
          usr\<lparr>user_bookings := user_bookings usr @ [new_id]\<rparr>),
        properties := (properties (load_db file))(pid \<mapsto>
          pr\<lparr>availability := set_status ''booked'' a c (availability pr)\<rparr>)\<rparr>)"
    by (rule create_booking_success)
  from overlap(1) ac bk have "a \<le> d" "d < c" by (simp_all add: booking_nights_iff)
  then have "\<not> bookable (set_status ''booked'' a c (availability pr)) d"
    by (rule not_bookable_booked)
  moreover have "properties (load_db file1) pid
      = Some (pr\<lparr>availability := set_status ''booked'' a c (availability pr)\<rparr>)"
    by (simp add: file1 load_db_def)
  ultimately show ?thesis
    using book_unbookable[of file1 pid _ ci2 a2 co2 c2 d today2 uid2 g2 pm2 sr2] range overlap
    by simp
qed

text \<open>
  Claim C1, as the code has it.  Start from a file whose database is consistent: the
  booking keys are distinct, no night of an active (not cancelled) booking can be
  booked in the calendar of its property, and no two active bookings of one property
  share a night; a database without bookings is one.  Then in every file that calls of
  \<^verbatim>\<open>create_booking\<close> and \<^verbatim>\<open>cancel_booking\<close> lead to, no two active bookings of one
  property share a night; as long as a booking is active, a quote or a booking of its
  property over a range that holds one of its nights fails (the quote with "Property
  not available on" a date of the range) and changes nothing; and a successful
  \<^verbatim>\<open>create_booking\<close> leaves every night of the new booking with status \<^verbatim>\<open>booked\<close>.
\<close>

theorem no_double_booking_invariant:
  assumes "consistent (load_db file0)" and "reachable file0 file"
  shows "no_double_booking (load_db file)
     \<and> (\<forall>(k, b) \<in> set (bookings (load_db file)). active b \<longrightarrow>
          (\<forall>pr ci co a c.
             properties (load_db file) (property_id b) = Some pr
             \<and> strptime ci = Some a \<and> strptime co = Some c
             \<and> (\<exists>d \<in> set (booking_nights b). a \<le> d \<and> d < c)
             \<longrightarrow> (\<exists>d. a \<le> d \<and> d < c \<and> calculate_booking_cost file (property_id b) ci co
                    = (Inl (ValueError (''Property not available on '' @ strftime d)), file))
                \<and> (\<forall>today uid g pm sr. \<exists>err.
                     create_booking today file uid (property_id b) ci co g pm sr
                     = (Inl err, file))))
     \<and> (\<forall>today uid pid ci co g pm sr bk file'.
          create_booking today file uid pid ci co g pm sr = (Inr bk, file')
          \<longrightarrow> booking_nights bk \<noteq> []
              \<and> (\<forall>d \<in> set (booking_nights bk).
                   map_option status (availability (the (properties (load_db file') pid)) d)
                   = Some ''booked''))"
proof -
  from assms have con: "consistent (load_db file)"
    by (simp add: consistent_reachable)
  then have ndb: "no_double_booking (load_db file)" and agree: "calendar_agrees (load_db file)"
    by (simp_all add: consistent_def)
  have fails: "(\<exists>d. a \<le> d \<and> d < c \<and> calculate_booking_cost file (property_id b) ci co
                    = (Inl (ValueError (''Property not available on '' @ strftime d)), file))
         \<and> (\<forall>today uid g pm sr. \<exists>err.
               create_booking today file uid (property_id b) ci co g pm sr = (Inl err, file))"
    if "(k, b) \<in> set (bookings (load_db file))" "active b"
      "properties (load_db file) (property_id b) = Some pr"
      "strptime ci = Some a" "strptime co = Some c"
      "d0 \<in> set (booking_nights b)" "a \<le> d0" "d0 < c"
    for k b pr ci co a c d0
  proof -
    from agree that(1,2,3,6) have "\<not> bookable (availability pr) d0"
      by (rule calendar_agreesD)
    with that show ?thesis
      using quote_unbookable[of "file" "property_id b" pr ci a co c d0]
        book_unbookable[of "file" "property_id b" pr ci a co c d0]
      by blast
  qed
  have overlap: "\<forall>(k, b) \<in> set (bookings (load_db file)). active b \<longrightarrow>
          (\<forall>pr ci co a c.
             properties (load_db file) (property_id b) = Some pr
             \<and> strptime ci = Some a \<and> strptime co = Some c
             \<and> (\<exists>d \<in> set (booking_nights b). a \<le> d \<and> d < c)
             \<longrightarrow> (\<exists>d. a \<le> d \<and> d < c \<and> calculate_booking_cost file (property_id b) ci co
                    = (Inl (ValueError (''Property not available on '' @ strftime d)), file))
                \<and> (\<forall>today uid g pm sr. \<exists>err.
                     create_booking today file uid (property_id b) ci co g pm sr
                     = (Inl err, file)))"
  proof (intro ballI, clarify)
    fix k b pr ci co a c d0
    assume "(k, b) \<in> set (bookings (load_db file))" "active b"
      "properties (load_db file) (property_id b) = Some pr"
      "strptime ci = Some a" "strptime co = Some c"
      "d0 \<in> set (booking_nights b)" "a \<le> d0" "d0 < c"
    then show "(\<exists>d. a \<le> d \<and> d < c \<and> calculate_booking_cost file (property_id b) ci co
                    = (Inl (ValueError (''Property not available on '' @ strftime d)), file))
         \<and> (\<forall>today uid g pm sr. \<exists>err.
               create_booking today file uid (property_id b) ci co g pm sr = (Inl err, file))"
      by (rule fails)
  qed
  have booked: "\<forall>today uid pid ci co g pm sr bk file'.
          create_booking today file uid pid ci co g pm sr = (Inr bk, file')
          \<longrightarrow> booking_nights bk \<noteq> []
              \<and> (\<forall>d \<in> set (booking_nights bk).
                   map_option status (availability (the (properties (load_db file') pid)) d)
                   = Some ''booked'')"
    by (intro allI impI) (rule booked_after_create)
  from ndb overlap booked show ?thesis by (intro conjI)
qed

text \<open>
  Two bookings in a row from the database of the scenario: 2024-05-15 to 2024-05-17,
  then 2024-05-17 to 2024-05-18.
\<close>

theorem no_double_booking_invariant_witness:
  "consistent (load_db (Some (example_db calendar_open [])))
   \<and> no_double_booking (load_db
       (snd (create_booking 739001
          (snd (create_booking 739000 (Some (example_db calendar_open [])) ''user1'' ''U1''
             ''2024-05-15'' ''2024-05-17'' 2 ''pm1'' None))
          ''user1'' ''U1'' ''2024-05-17'' ''2024-05-18'' 1 ''pm1'' None)))
   \<and> map (\<lambda>(k, b). (k, booking_status b, check_in_date b, check_out_date b))
       (bookings (load_db
         (snd (create_booking 739001
            (snd (create_booking 739000 (Some (example_db calendar_open [])) ''user1'' ''U1''
               ''2024-05-15'' ''2024-05-17'' 2 ''pm1'' None))
            ''user1'' ''U1'' ''2024-05-17'' ''2024-05-18'' 1 ''pm1'' None))))
     = [(''BOOK001'', ''confirmed'', ''2024-05-15'', ''2024-05-17''),
        (''BOOK002'', ''confirmed'', ''2024-05-17'', ''2024-05-18'')]"
proof -
  have c: "consistent (load_db (Some (example_db calendar_open [])))"
    by (simp add: consistent_def calendar_agrees_def no_double_booking_def load_db_def
        example_db_def)
  have r: "reachable (Some (example_db calendar_open []))
       (snd (create_booking 739001
          (snd (create_booking 739000 (Some (example_db calendar_open [])) ''user1'' ''U1''
             ''2024-05-15'' ''2024-05-17'' 2 ''pm1'' None))
          ''user1'' ''U1'' ''2024-05-17'' ''2024-05-18'' 1 ''pm1'' None))"
    by (intro reachable.book reachable.start)
  have m: "map (\<lambda>(k, b). (k, booking_status b, check_in_date b, check_out_date b))
       (bookings (load_db
         (snd (create_booking 739001
            (snd (create_booking 739000 (Some (example_db calendar_open [])) ''user1'' ''U1''
               ''2024-05-15'' ''2024-05-17'' 2 ''pm1'' None))
            ''user1'' ''U1'' ''2024-05-17'' ''2024-05-18'' 1 ''pm1'' None))))
     = [(''BOOK001'', ''confirmed'', ''2024-05-15'', ''2024-05-17''),
        (''BOOK002'', ''confirmed'', ''2024-05-17'', ''2024-05-18'')]"
    by code_simp
  from no_double_booking_invariant[OF c r] c m show ?thesis by blast
qed

text \<open>
  The claim as the specification words it, for every initial database, fails.
  \<^verbatim>\<open>make_db.py\<close> writes bookings with status \<^verbatim>\<open>pending\<close> without marking their dates in the
  calendar.  From a database with one such booking of \<^verbatim>\<open>U1\<close> for 2024-05-15 to
  2024-05-17, in which no two bookings overlap, \<^verbatim>\<open>create_booking\<close> for the same dates
  succeeds, and then two bookings that are not cancelled share both nights.
\<close>

theorem no_double_booking_counterexample:
  "reachable (Some (example_db calendar_open [(''BOOK0001'', pending_booking)]))
     (snd (create_booking 739000
        (Some (example_db calendar_open [(''BOOK0001'', pending_booking)]))
        ''user1'' ''U1'' ''2024-05-15'' ''2024-05-17'' 2 ''pm1'' None))
   \<and> no_double_booking (load_db
        (Some (example_db calendar_open [(''BOOK0001'', pending_booking)])))
   \<and> \<not> no_double_booking (load_db
        (snd (create_booking 739000
           (Some (example_db calendar_open [(''BOOK0001'', pending_booking)]))
           ''user1'' ''U1'' ''2024-05-15'' ''2024-05-17'' 2 ''pm1'' None)))
   \<and> map (\<lambda>(k, b). (k, booking_status b, property_id b, booking_nights b))
       (bookings (load_db
         (snd (create_booking 739000
           (Some (example_db calendar_open [(''BOOK0001'', pending_booking)]))
           ''user1'' ''U1'' ''2024-05-15'' ''2024-05-17'' 2 ''pm1'' None))))
     = [(''BOOK0001'', ''pending'', ''U1'', [739021, 739022]),
        (''BOOK002'', ''confirmed'', ''U1'', [739021, 739022])]"
proof -
  have r: "reachable (Some (example_db calendar_open [(''BOOK0001'', pending_booking)]))
     (snd (create_booking 739000
        (Some (example_db calendar_open [(''BOOK0001'', pending_booking)]))
        ''user1'' ''U1'' ''2024-05-15'' ''2024-05-17'' 2 ''pm1'' None))"
    by (intro reachable.book reachable.start)
  have a: "no_double_booking (load_db
        (Some (example_db calendar_open [(''BOOK0001'', pending_booking)])))"
    by (simp add: no_double_booking_def load_db_def example_db_def)
  have b: "\<not> no_double_booking (load_db
        (snd (create_booking 739000
           (Some (example_db calendar_open [(''BOOK0001'', pending_booking)]))
           ''user1'' ''U1'' ''2024-05-15'' ''2024-05-17'' 2 ''pm1'' None)))"
    by code_simp
  have m: "map (\<lambda>(k, b). (k, booking_status b, property_id b, booking_nights b))
       (bookings (load_db
         (snd (create_booking 739000
           (Some (example_db calendar_open [(''BOOK0001'', pending_booking)]))
           ''user1'' ''U1'' ''2024-05-15'' ''2024-05-17'' 2 ''pm1'' None))))
     = [(''BOOK0001'', ''pending'', ''U1'', [739021, 739022]),
        (''BOOK002'', ''confirmed'', ''U1'', [739021, 739022])]"
    by code_simp
  from r a b m show ?thesis by blast
qed

subsection \<open>A generated booking id is read back by \<^verbatim>\<open>get_next_booking_id\<close>\<close>

lemma digit_char_cases:
  assumes "d < 10"
  shows "is_digit (digit_char (int d)) \<and> digit_val (digit_char (int d)) = int d"
proof -
  have "\<forall>k \<in> set [0, 1, 2, 3, 4, 5, 6, 7, 8, 9 :: nat].
          is_digit (digit_char (int k)) \<and> digit_val (digit_char (int k)) = int k"
    by code_simp
  moreover from assms have "d \<in> set [0, 1, 2, 3, 4, 5, 6, 7, 8, 9]" by auto
  ultimately show ?thesis by blast
qed

lemma digits_of_digits: "\<forall>c \<in> set (digits_of n). is_digit c"
proof (induction n rule: digits_of.induct)
  case (1 n)
  show ?case
  proof (cases "n < 10")
    case True
    then show ?thesis
      by (subst digits_of.simps) (simp add: digit_char_cases)
  next
    case False
    have "n mod 10 < 10" by simp
    with False "1.IH" show ?thesis
      by (subst digits_of.simps) (simp add: digit_char_cases)
  qed
qed

lemma digits_of_nonempty: "digits_of n \<noteq> []"
  by (subst digits_of.simps) simp

lemma digits_value_snoc:
  "\<forall>c \<in> set s. is_digit c \<Longrightarrow> is_digit c'
   \<Longrightarrow> digits_value acc (s @ [c']) = map_option (\<lambda>v. 10 * v + digit_val c') (digits_value acc s)"
  by (induction s arbitrary: acc) simp_all

lemma digits_value_digits_of: "digits_value 0 (digits_of n) = Some (int n)"
proof (induction n rule: digits_of.induct)
  case (1 n)
  show ?case
  proof (cases "n < 10")
    case True
    then show ?thesis
      by (subst digits_of.simps) (simp add: digit_char_cases)
  next
    case False
    have m: "n mod 10 < 10" by simp
    have "digits_value 0 (digits_of (n div 10) @ [digit_char (int (n mod 10))])
          = map_option (\<lambda>v. 10 * v + digit_val (digit_char (int (n mod 10))))
              (digits_value 0 (digits_of (n div 10)))"
      using digits_of_digits digit_char_cases[OF m] by (intro digits_value_snoc) auto
    also have "\<dots> = Some (10 * int (n div 10) + int (n mod 10))"
      using "1.IH" False digit_char_cases[OF m] by simp
    also have "10 * int (n div 10) + int (n mod 10) = int n"
      by (simp add: zdiv_int zmod_int)
    finally show ?thesis
      using False by (subst digits_of.simps) simp
  qed
qed

lemma is_digit_zero: "is_digit (CHR ''0'')" "digit_val (CHR ''0'') = 0"
  by (simp_all add: is_digit_def digit_val_def)

lemma digits_value_zero_pad: "digits_value 0 (zero_pad w s) = digits_value 0 s"
proof -
  have "digits_value 0 (replicate k (CHR ''0'') @ s) = digits_value 0 s" for k
    by (induction k) (simp_all add: is_digit_zero)
  then show ?thesis by (simp add: zero_pad_def)
qed

lemma zero_pad_digits: "\<forall>c \<in> set s. is_digit c \<Longrightarrow> \<forall>c \<in> set (zero_pad w s). is_digit c"
  by (auto simp: zero_pad_def is_digit_zero)

lemma unsigned_value_zero_pad:
  "unsigned_value (zero_pad w (digits_of n)) = Some (int n)"
proof -
  have ne: "zero_pad w (digits_of n) \<noteq> []"
    by (simp add: zero_pad_def digits_of_nonempty)
  then obtain c cs where s: "zero_pad w (digits_of n) = c # cs"
    by (cases "zero_pad w (digits_of n)") auto
  have "\<forall>c \<in> set (zero_pad w (digits_of n)). is_digit c"
    by (intro zero_pad_digits digits_of_digits)
  with s have "is_digit c" by simp
  with s have "unsigned_value (zero_pad w (digits_of n))
               = digits_value 0 (zero_pad w (digits_of n))"
    by (simp add: unsigned_value_def)
  then show ?thesis
    by (simp add: digits_value_zero_pad digits_value_digits_of)
qed

lemma is_digit_plain:
  "is_digit c \<Longrightarrow> \<not> is_space c \<and> c \<noteq> CHR ''-'' \<and> c \<noteq> CHR ''+'' \<and> c \<noteq> CHR ''B''"
  by (auto simp: is_digit_def is_space_def)

lemma no_space_strip:
  assumes "\<forall>c \<in> set s. \<not> is_space c"
  shows "rev (dropWhile is_space (rev (dropWhile is_space s))) = s"
proof -
  have d: "dropWhile is_space t = t" if "\<forall>c \<in> set t. \<not> is_space c" for t
    using that by (cases t) auto
  from assms show ?thesis by (simp add: d)
qed

lemma format_03d_chars:
  "\<forall>c \<in> set (format_03d n). \<not> is_space c \<and> c \<noteq> CHR ''B''"
proof -
  have "\<forall>c \<in> set (zero_pad w (digits_of m)). \<not> is_space c \<and> c \<noteq> CHR ''B''" for w m
    using zero_pad_digits[OF digits_of_digits, of w m] is_digit_plain by blast
  then show ?thesis
    by (auto simp: format_03d_def is_space_def)
qed

lemma py_int_no_space:
  "\<forall>c \<in> set s. \<not> is_space c \<Longrightarrow>
   py_int s = (case s of [] \<Rightarrow> None
      | c # cs \<Rightarrow>
          if c = CHR ''-'' then map_option uminus (unsigned_value cs)
          else if c = CHR ''+'' then unsigned_value cs
          else unsigned_value s)"
  by (simp only: py_int_def no_space_strip Let_def)

lemma py_int_format_03d: "py_int (format_03d n) = Some n"
proof -
  have ns: "\<forall>c \<in> set (format_03d n). \<not> is_space c"
    using format_03d_chars by blast
  show ?thesis
  proof (cases "n < 0")
    case True
    then have "format_03d n = CHR ''-'' # zero_pad 2 (digits_of (nat (- n)))"
      by (simp add: format_03d_def)
    with True ns show ?thesis
      by (simp add: py_int_no_space unsigned_value_zero_pad)
  next
    case False
    define s where "s = zero_pad 3 (digits_of (nat n))"
    have "s \<noteq> []" by (simp add: s_def zero_pad_def digits_of_nonempty)
    then obtain c cs where s: "s = c # cs" by (cases s) auto
    have "\<forall>c \<in> set s. is_digit c"
      unfolding s_def by (intro zero_pad_digits digits_of_digits)
    with s have c: "c \<noteq> CHR ''-''" "c \<noteq> CHR ''+''" using is_digit_plain by auto
    have u: "unsigned_value s = Some n"
      using False by (simp add: s_def unsigned_value_zero_pad)
    from False have f: "format_03d n = s" by (simp add: format_03d_def s_def)
    from ns have "py_int s = (case s of [] \<Rightarrow> None
      | c # cs \<Rightarrow>
          if c = CHR ''-'' then map_option uminus (unsigned_value cs)
          else if c = CHR ''+'' then unsigned_value cs
          else unsigned_value s)"
      unfolding f by (rule py_int_no_space)
    with c u s show ?thesis
      unfolding f by simp
  qed
qed

lemma replace_BOOK_plain: "CHR ''B'' \<notin> set s \<Longrightarrow> replace_BOOK s = s"
  by (induction s) auto

lemma new_id_parses: "py_int (replace_BOOK (''BOOK'' @ format_03d n)) = Some n"
proof -
  have "replace_BOOK (''BOOK'' @ format_03d n) = replace_BOOK (format_03d n)"
    by simp
  also have "\<dots> = format_03d n"
    using format_03d_chars by (intro replace_BOOK_plain) blast
  finally show ?thesis by (simp add: py_int_format_03d)
qed

lemma existing_ids_append:
  "existing_ids (xs @ ys) =
     (case existing_ids xs of
        Inl err \<Rightarrow> Inl err
      | Inr is \<Rightarrow> (case existing_ids ys of Inl err \<Rightarrow> Inl err | Inr js \<Rightarrow> Inr (is @ js)))"
  by (induction xs) (auto split: option.splits sum.splits)

lemma map_fst_update:
  "map fst (AList.update k v al)
   = (if k \<in> fst ` set al then map fst al else map fst al @ [k])"
  by (induction al) auto

lemma get_next_booking_id_again:
  assumes "get_next_booking_id db = Inr new_id"
    and "bookings db' = AList.update new_id b2 (AList.update new_id b1 (bookings db))"
  shows "\<exists>next_id. get_next_booking_id db' = Inr next_id"
proof -
  from assms(1) obtain ids where ids: "existing_ids (map fst (bookings db)) = Inr ids"
    and new: "new_id = ''BOOK'' @ format_03d (max_default ids 0 + 1)"
    by (auto simp: get_next_booking_id_def split: sum.splits)
  have "existing_ids [new_id] = Inr [max_default ids 0 + 1]"
    unfolding new
    by (simp only: existing_ids.simps new_id_parses option.case sum.case)
  with ids have "\<exists>js. existing_ids (map fst (bookings db')) = Inr js"
    by (auto simp: assms(2) map_fst_update existing_ids_append)
  then show ?thesis
    by (auto simp: get_next_booking_id_def)
qed

subsection \<open>Binary64 products that truncate to the exact quotient\<close>

lemma round_half_even_bounds:
  assumes lo: "2 * (A * 2 ^ s) < 2 * a + 2 ^ s"
    and hi: "2 * a + 2 ^ s < 2 * (B * 2 ^ s)"
  shows "A \<le> round_half_even a s \<and> round_half_even a s < B"
proof -
  define P :: int where "P = 2 ^ s"
  define q where "q = a div P"
  define r where "r = a mod P"
  have P: "0 < P" by (simp add: P_def)
  have a: "a = q * P + r" by (simp add: q_def r_def)
  have r: "0 \<le> r" "r < P" using P by (simp_all add: r_def)
  have rhe: "round_half_even a s = (if 2 * r > P \<or> (2 * r = P \<and> odd q) then q + 1 else q)"
    by (simp add: round_half_even_def P_def q_def r_def Let_def)
  from lo[folded P_def] a have lo': "2 * (A * P) < 2 * (q * P) + 2 * r + P"
    by linarith
  from hi[folded P_def] a have hi': "2 * (q * P) + 2 * r + P < 2 * (B * P)"
    by linarith
  have d1: "(q + 1) * P = q * P + P" and d2: "(q + 2) * P = q * P + 2 * P"
    by (simp_all add: distrib_right)
  show ?thesis
  proof (cases "2 * r > P \<or> (2 * r = P \<and> odd q)")
    case True
    then have up: "P \<le> 2 * r" by auto
    from lo' r d2 have "A * P < (q + 2) * P" by linarith
    with P have "A < q + 2" by (simp only: mult_less_cancel_right_pos)
    moreover from hi' up d1 have "(q + 1) * P < B * P" by linarith
    with P have "q + 1 < B" by (simp only: mult_less_cancel_right_pos)
    moreover from True have "round_half_even a s = q + 1" unfolding rhe by simp
    ultimately show ?thesis by simp
  next
    case False
    then have down: "2 * r \<le> P" by auto
    from lo' down d1 have "A * P < (q + 1) * P" by linarith
    with P have "A < q + 1" by (simp only: mult_less_cancel_right_pos)
    moreover from hi' r have "q * P < B * P" by linarith
    with P have "q < B" by (simp only: mult_less_cancel_right_pos)
    moreover from False have "round_half_even a s = q" unfolding rhe by simp
    ultimately show ?thesis by simp
  qed
qed

lemma bitlen_le_of_less:
  assumes "N < 2 ^ j"
  shows "bitlen N \<le> int j"
proof -
  from assms have "N < 2 ^ nat (int j)" by simp
  then show ?thesis
    using bitlen_le_iff_power[of N "int j"] by simp
qed

lemma bitlen_shift:
  assumes "0 < N" "N < 2 ^ (53 + j)"
  shows "nat (bitlen N - 53) \<le> j" and "N < 2 ^ (53 + nat (bitlen N - 53))"
proof -
  from assms(2) have "bitlen N \<le> int (53 + j)" by (rule bitlen_le_of_less)
  then show "nat (bitlen N - 53) \<le> j" by simp
  from bitlen_bounds[OF assms(1)] have b: "N < 2 ^ nat (bitlen N)" by simp
  show "N < 2 ^ (53 + nat (bitlen N - 53))"
  proof (cases "53 \<le> bitlen N")
    case True
    then have "53 + nat (bitlen N - 53) = nat (bitlen N)" by simp
    with b show ?thesis by simp
  next
    case False
    then have "nat (bitlen N) \<le> 53" by simp
    then have "(2::int) ^ nat (bitlen N) \<le> 2 ^ 53" by (intro power_increasing) simp_all
    with b False show ?thesis by simp
  qed
qed

lemma float_of_int_exact:
  assumes "0 \<le> n" "n < 2 ^ 53"
  shows "float_of_int n = Inr (n, 0)"
proof (cases "n = 0")
  case True
  then show ?thesis
    by (simp add: float_of_int_def round53_def round_half_even_def overflows_def)
next
  case False
  with assms have pos: "0 < n" by simp
  from assms(2) have b: "bitlen n \<le> int 53" by (rule bitlen_le_of_less)
  then have "nat (bitlen \<bar>n\<bar> - 53) = 0" using pos by simp
  with pos b show ?thesis
    by (simp add: float_of_int_def round53_def round_half_even_def overflows_def)
qed

text \<open>
  The product of a positive integer below \<open>2 ^ 53\<close> with the float \<open>m * 2 ^ -w\<close>
  truncates to \<open>k\<close> when the exact product lies, by the rounding margin, between \<open>k\<close>
  and \<open>k + 1\<close>.
\<close>

lemma int_mul_float_between:
  assumes n: "0 < n" "n < 2 ^ 53" and m: "0 < m" "m < 2 ^ 53"
    and s: "s = nat (bitlen (n * m) - 53)" "s \<le> w" and w: "w \<le> 1000"
    and lo: "2 * (k * 2 ^ w) < 2 * (n * m) + 2 ^ s"
    and hi: "2 * (n * m) + 2 ^ s < 2 * ((k + 1) * 2 ^ w)"
  shows "int_mul_float n (m, - int w) = Inr k"
proof -
  define N where "N = n * m"
  define R where "R = round_half_even N s"
  define T :: int where "T = 2 ^ (w - s)"
  have N: "0 < N" using n m by (simp add: N_def)
  have T: "0 < T" by (simp add: T_def)
  have G: "(2::int) ^ w = T * 2 ^ s"
    using s(2) by (simp add: T_def power_add[symmetric])
  have "k * T \<le> R \<and> R < (k + 1) * T"
    unfolding R_def
  proof (rule round_half_even_bounds)
    show "2 * (k * T * 2 ^ s) < 2 * N + 2 ^ s"
      using lo unfolding N_def G by (simp only: mult.assoc)
    show "2 * N + 2 ^ s < 2 * ((k + 1) * T * 2 ^ s)"
      using hi unfolding N_def G by (simp only: mult.assoc)
  qed
  then have kT: "k * T \<le> R" "R < (k + 1) * T" by simp_all
  have "(0::int) < 2 ^ s" by simp
  with hi N have "0 < (k + 1) * 2 ^ w"
    unfolding N_def[symmetric] by linarith
  then have k0: "0 \<le> k" by (simp add: zero_less_mult_iff)
  have R0: "0 \<le> R"
  proof -
    have "0 \<le> k * T" using k0 T by simp
    with kT(1) show ?thesis by linarith
  qed
  have div: "R div T = k"
  proof (rule int_div_pos_eq)
    show "R = T * k + (R - k * T)" by (simp add: algebra_simps)
    show "0 \<le> R - k * T" using kT by simp
    have "(k + 1) * T = k * T + T" by (simp add: distrib_right)
    with kT show "R - k * T < T" by linarith
  qed
  have "R \<le> N + 1"
  proof -
    have "N div 2 ^ s \<le> N"
      using N by (rule int_div_le_self)
    then show ?thesis
      by (simp add: R_def round_half_even_def Let_def)
  qed
  moreover have "N < 2 ^ 53 * 2 ^ 53"
    unfolding N_def using n m by (intro mult_strict_mono) simp_all
  ultimately have "R < 2 ^ 107" by simp
  then have bR: "bitlen R \<le> int 107" by (rule bitlen_le_of_less)
  have prod: "round53 (n * m) (- int w) = (R, int s - int w)"
    using N R0 by (simp add: round53_def R_def N_def[symmetric] s(1) Let_def sgn_if)
  have nov: "\<not> overflows (R, int s - int w)"
    using bR R0 s(2) by (simp add: overflows_def)
  have tr: "trunc_double (R, int s - int w) = k"
  proof (cases "s = w")
    case True
    then have "T = 1" by (simp add: T_def)
    with div True show ?thesis by (simp add: trunc_double_def)
  next
    case False
    with s(2) have "nat (int w - int s) = w - s" "\<not> 0 \<le> int s - int w" by simp_all
    with div R0 show ?thesis
      by (auto simp: trunc_double_def T_def sgn_if)
  qed
  from n have "float_of_int n = Inr (n, 0)"
    by (intro float_of_int_exact) simp_all
  with prod nov tr show ?thesis
    by (simp add: int_mul_float_def float_mul_def Let_def)
qed

lemma mod_100_multiple_of_4:
  "(4 * a) mod 100 \<le> (96::int)"
proof -
  have "(4 * a) mod (4 * 25) = 4 * (a mod 25)" by (rule mod_mult_mult1)
  moreover have "a mod 25 < 25" by simp
  ultimately show ?thesis by simp
qed

text \<open>
  \<^verbatim>\<open>int(n * 0.12)\<close> is \<open>12 n div 100\<close> for \<open>0 \<le> n < 2 ^ 50\<close>: the float \<^verbatim>\<open>0.12\<close> is
  \<open>(12 * 2 ^ 56 - 32) / 100 * 2 ^ -56\<close>, a little below 12/100.
\<close>

lemma int_mul_float_0_12:
  assumes "0 \<le> n" "n < 2 ^ 50"
  shows "int_mul_float n float_0_12 = Inr (n * 12 div 100)"
proof (cases "n = 0")
  case True
  have "int_mul_float 0 float_0_12 = Inr 0" by code_simp
  with True show ?thesis by simp
next
  case False
  with assms have pos: "0 < n" by simp
  define m :: int where "m = 8646911284551352"
  define N where "N = n * m"
  define s where "s = nat (bitlen N - 53)"
  define P :: int where "P = 2 ^ s"
  define k where "k = n * 12 div 100"
  define \<rho> where "\<rho> = n * 12 mod 100"
  have G: "(2::int) ^ 56 = 72057594037927936" by simp
  from assms(2) have nb: "n < 1125899906842624" by simp
  have Nm: "N = 8646911284551352 * n" by (simp add: N_def m_def)
  have Npos: "0 < N" using pos by (simp add: Nm)
  have "N < 2 ^ (53 + 50)" using nb by (simp add: Nm)
  from bitlen_shift[OF Npos this] have s50: "s \<le> 50" and NP: "N < 2 ^ (53 + s)"
    by (simp_all add: s_def)
  from s50 have "P \<le> 2 ^ 50" unfolding P_def by (intro power_increasing) simp_all
  then have Pb: "P \<le> 1125899906842624" by simp
  have P1: "1 \<le> P" by (simp add: P_def)
  from NP have NP': "N < 9007199254740992 * P" by (simp add: P_def power_add)
  have kr: "n * 12 = 100 * k + \<rho>"
    unfolding k_def \<rho>_def by (rule mult_div_mod_eq[symmetric])
  have r0: "0 \<le> \<rho>" by (simp add: \<rho>_def)
  have "n * 12 = 4 * (3 * n)" by simp
  then have r96: "\<rho> \<le> 96" unfolding \<rho>_def by (simp only: mod_100_multiple_of_4)
  have lo: "2 * (k * 2 ^ 56) < 2 * (n * m) + 2 ^ s"
    unfolding G N_def[symmetric] P_def[symmetric]
    using Nm kr r0 r96 nb pos NP' P1 by linarith
  have hi: "2 * (n * m) + 2 ^ s < 2 * ((k + 1) * 2 ^ 56)"
    unfolding G N_def[symmetric] P_def[symmetric]
    using Nm kr r0 r96 nb pos Pb by (simp add: distrib_right)
  have "int_mul_float n (m, - int 56) = Inr k"
  proof (rule int_mul_float_between[OF pos _ _ _ _ _ _ lo hi])
    show "n < 2 ^ 53" using nb by simp
    show "0 < m" "m < 2 ^ 53" by (simp_all add: m_def)
    show "s = nat (bitlen (n * m) - 53)" by (simp add: s_def N_def)
    show "s \<le> 56" using s50 by simp
    show "(56::nat) \<le> 1000" by simp
  qed
  then show ?thesis
    by (simp add: float_0_12_def m_def k_def)
qed

text \<open>
  \<^verbatim>\<open>int(x * 0.08)\<close> is \<open>8 x div 100\<close> for \<open>0 \<le> x < 2 ^ 51\<close>: the float \<^verbatim>\<open>0.08\<close> is
  \<open>(8 * 2 ^ 56 + 12) / 100 * 2 ^ -56\<close>, a little above 8/100.
\<close>

lemma int_mul_float_0_08:
  assumes "0 \<le> n" "n < 2 ^ 51"
  shows "int_mul_float n float_0_08 = Inr (n * 8 div 100)"
proof (cases "n = 0")
  case True
  have "int_mul_float 0 float_0_08 = Inr 0" by code_simp
  with True show ?thesis by simp
next
  case False
  with assms have pos: "0 < n" by simp
  define m :: int where "m = 5764607523034235"
  define N where "N = n * m"
  define s where "s = nat (bitlen N - 53)"
  define P :: int where "P = 2 ^ s"
  define k where "k = n * 8 div 100"
  define \<rho> where "\<rho> = n * 8 mod 100"
  have G: "(2::int) ^ 56 = 72057594037927936" by simp
  from assms(2) have nb: "n < 2251799813685248" by simp
  have Nm: "N = 5764607523034235 * n" by (simp add: N_def m_def)
  have Npos: "0 < N" using pos by (simp add: Nm)
  have "N < 2 ^ (53 + 51)" using nb by (simp add: Nm)
  from bitlen_shift[OF Npos this] have s51: "s \<le> 51" and NP: "N < 2 ^ (53 + s)"
    by (simp_all add: s_def)
  from s51 have "P \<le> 2 ^ 51" unfolding P_def by (intro power_increasing) simp_all
  then have Pb: "P \<le> 2251799813685248" by simp
  have P1: "1 \<le> P" by (simp add: P_def)
  have kr: "n * 8 = 100 * k + \<rho>"
    unfolding k_def \<rho>_def by (rule mult_div_mod_eq[symmetric])
  have r0: "0 \<le> \<rho>" by (simp add: \<rho>_def)
  have "n * 8 = 4 * (2 * n)" by simp
  then have r96: "\<rho> \<le> 96" unfolding \<rho>_def by (simp only: mod_100_multiple_of_4)
  have lo: "2 * (k * 2 ^ 56) < 2 * (n * m) + 2 ^ s"
    unfolding G N_def[symmetric] P_def[symmetric]
    using Nm kr r0 r96 nb pos P1 by linarith
  have hi: "2 * (n * m) + 2 ^ s < 2 * ((k + 1) * 2 ^ 56)"
    unfolding G N_def[symmetric] P_def[symmetric]
    using Nm kr r0 r96 nb pos Pb by (simp add: distrib_right)
  have "int_mul_float n (m, - int 56) = Inr k"
  proof (rule int_mul_float_between[OF pos _ _ _ _ _ _ lo hi])
    show "n < 2 ^ 53" using nb by simp
    show "0 < m" "m < 2 ^ 53" by (simp_all add: m_def)
    show "s = nat (bitlen (n * m) - 53)" by (simp add: s_def N_def)
    show "s \<le> 56" using s51 by simp
    show "(56::nat) \<le> 1000" by simp
  qed
  then show ?thesis
    by (simp add: float_0_08_def m_def k_def)
qed

subsection \<open>The pricing formula\<close>

lemma nightly_loop_result:
  "(\<forall>d. a \<le> d \<and> d < c \<longrightarrow> bookable av d) \<Longrightarrow>
   nightly_loop av a c cs t =
     Inr (cs @ map (\<lambda>d. \<lparr>date = strftime d, price = price_per_night (the (av d))\<rparr>) [a..c - 1],
          t + sum_list (map (\<lambda>d. price_per_night (the (av d))) [a..c - 1]))"
proof (induction av a c cs t rule: nightly_loop.induct)
  case (1 avail current_date end_date costs total)
  show ?case
  proof (cases "current_date < end_date")
    case False
    then have "[current_date..end_date - 1] = []" by simp
    with False show ?thesis
      by (subst nightly_loop.simps) simp
  next
    case True
    with "1.prems" have "bookable avail current_date" by simp
    then obtain e where e: "avail current_date = Some e" "status e = ''available''"
      by (auto simp: bookable_def split: option.splits)
    from True have u: "[current_date..end_date - 1]
                       = current_date # [current_date + 1..end_date - 1]"
      by (simp add: upto_rec1)
    have "nightly_loop avail current_date end_date costs total =
          nightly_loop avail (current_date + 1) end_date
            (costs @ [\<lparr>date = strftime current_date, price = price_per_night e\<rparr>])
            (total + price_per_night e)"
      using True e by (subst nightly_loop.simps) simp
    also have "\<dots> = Inr ((costs @ [\<lparr>date = strftime current_date, price = price_per_night e\<rparr>])
          @ map (\<lambda>d. \<lparr>date = strftime d, price = price_per_night (the (avail d))\<rparr>)
              [current_date + 1..end_date - 1],
          (total + price_per_night e)
          + sum_list (map (\<lambda>d. price_per_night (the (avail d)))
              [current_date + 1..end_date - 1]))"
      using "1.prems" e by (intro "1.IH"[OF True e(1)]) auto
    finally show ?thesis
      using e by (simp add: u)
  qed
qed

lemma fees_exact:
  assumes "0 \<le> t" and "t < 10 ^ 15"
  shows "fees pid ci co n costs t =
     Inr \<lparr>cost_property_id = pid, cost_check_in_date = ci, cost_check_out_date = co,
          cost_nights = n, nightly_costs = costs, subtotal = t,
          service_fee = t * 12 div 100, cleaning_fee = 50,
          taxes = (t + t * 12 div 100 + 50) * 8 div 100,
          total = t + t * 12 div 100 + 50 + (t + t * 12 div 100 + 50) * 8 div 100\<rparr>"
proof -
  from assms have tb: "t < 1000000000000000" by simp
  then have "t < 2 ^ 50" by simp
  with assms(1) have fee: "int_mul_float t float_0_12 = Inr (t * 12 div 100)"
    by (rule int_mul_float_0_12)
  define x where "x = t + t * 12 div 100 + 50"
  have "t * 12 div 100 \<le> t" using assms(1) by simp
  moreover have "0 \<le> t * 12 div 100" using assms(1) by simp
  ultimately have "0 \<le> x" "x < 2 ^ 51" using assms(1) tb by (simp_all add: x_def)
  then have "int_mul_float x float_0_08 = Inr (x * 8 div 100)"
    by (rule int_mul_float_0_08)
  with fee show ?thesis
    by (simp add: fees_def x_def Let_def)
qed

text \<open>
  Claim C3, as the code has it.  The fees are computed in binary64 floating point
  (\<^verbatim>\<open>int(total_price * 0.12)\<close>).  For nightly prices whose sum \<open>S\<close> is at least 0 and below
  \<open>10 ^ 15\<close> the breakdown is exact: subtotal \<open>S\<close>, service fee \<open>\<lfloor>12 S / 100\<rfloor>\<close>, cleaning
  fee 50, taxes \<open>\<lfloor>8 (S + fee + 50) / 100\<rfloor>\<close>, total their sum.  And for a range of bookable
  dates, \<^verbatim>\<open>calculate_booking_cost\<close> returns this breakdown of the nightly prices of the
  range, in order.
\<close>

theorem pricing_formula:
  assumes "0 \<le> sum_list (map price costs)" and "sum_list (map price costs) < 10 ^ 15"
  shows "fees pid ci co n costs (sum_list (map price costs)) =
     Inr \<lparr>cost_property_id = pid, cost_check_in_date = ci, cost_check_out_date = co,
          cost_nights = n, nightly_costs = costs,
          subtotal = sum_list (map price costs),
          service_fee = sum_list (map price costs) * 12 div 100,
          cleaning_fee = 50,
          taxes = (sum_list (map price costs) + sum_list (map price costs) * 12 div 100 + 50)
                  * 8 div 100,
          total = sum_list (map price costs) + sum_list (map price costs) * 12 div 100 + 50
                  + (sum_list (map price costs) + sum_list (map price costs) * 12 div 100 + 50)
                    * 8 div 100\<rparr>
   \<and> (\<forall>pr a c.
         properties (load_db file) pid = Some pr
         \<and> strptime ci = Some a \<and> strptime co = Some c \<and> a < c
         \<and> (\<forall>d. a \<le> d \<and> d < c \<longrightarrow> bookable (availability pr) d)
         \<and> costs = map (\<lambda>d. \<lparr>date = strftime d,
                                 price = price_per_night (the (availability pr d))\<rparr>) [a..c - 1]
         \<longrightarrow> calculate_booking_cost file pid ci co
             = (fees pid ci co (c - a) costs (sum_list (map price costs)), file))"
proof (intro conjI allI impI)
  show "fees pid ci co n costs (sum_list (map price costs)) =
     Inr \<lparr>cost_property_id = pid, cost_check_in_date = ci, cost_check_out_date = co,
          cost_nights = n, nightly_costs = costs,
          subtotal = sum_list (map price costs),
          service_fee = sum_list (map price costs) * 12 div 100,
          cleaning_fee = 50,
          taxes = (sum_list (map price costs) + sum_list (map price costs) * 12 div 100 + 50)
                  * 8 div 100,
          total = sum_list (map price costs) + sum_list (map price costs) * 12 div 100 + 50
                  + (sum_list (map price costs) + sum_list (map price costs) * 12 div 100 + 50)
                    * 8 div 100\<rparr>"
    using assms by (rule fees_exact)
next
  fix pr a c
  assume h: "properties (load_db file) pid = Some pr
         \<and> strptime ci = Some a \<and> strptime co = Some c \<and> a < c
         \<and> (\<forall>d. a \<le> d \<and> d < c \<longrightarrow> bookable (availability pr) d)
         \<and> costs = map (\<lambda>d. \<lparr>date = strftime d,
                                 price = price_per_night (the (availability pr d))\<rparr>) [a..c - 1]"
  then have "nightly_loop (availability pr) a c [] 0 =
     Inr (costs, sum_list (map (\<lambda>d. price_per_night (the (availability pr d))) [a..c - 1]))"
    using nightly_loop_result[of a c "availability pr" "[]" 0] by simp
  moreover from h have "sum_list (map price costs)
      = sum_list (map (\<lambda>d. price_per_night (the (availability pr d))) [a..c - 1])"
    by (simp add: comp_def)
  ultimately show "calculate_booking_cost file pid ci co
             = (fees pid ci co (c - a) costs (sum_list (map price costs)), file)"
    using h by (simp add: calculate_booking_cost_def dom_def)
qed

text \<open>The example of the specification: two nights at 100.\<close>

theorem pricing_formula_witness:
  "fees ''U1'' ''2024-05-15'' ''2024-05-17'' 2
     [\<lparr>date = ''2024-05-15'', price = 100\<rparr>, \<lparr>date = ''2024-05-16'', price = 100\<rparr>] 200
   = Inr \<lparr>cost_property_id = ''U1'', cost_check_in_date = ''2024-05-15'',
          cost_check_out_date = ''2024-05-17'', cost_nights = 2,
          nightly_costs = [\<lparr>date = ''2024-05-15'', price = 100\<rparr>,
                           \<lparr>date = ''2024-05-16'', price = 100\<rparr>],
          subtotal = 200, service_fee = 24, cleaning_fee = 50, taxes = 21, total = 295\<rparr>"
  using pricing_formula[of "[\<lparr>date = ''2024-05-15'', price = 100\<rparr>,
      \<lparr>date = ''2024-05-16'', price = 100\<rparr>]" "''U1''" "''2024-05-15''" "''2024-05-17''" 2]
  by simp

text \<open>
  The claim as the specification words it, for every sequence of nightly prices, fails
  where binary64 rounds: for one night at 9400000000000008 the exact 12 per cent is
  1128000000000000.96, and the server returns the service fee 1128000000000001.
\<close>

theorem pricing_formula_counterexample:
  "map_sum id (\<lambda>r. (subtotal r, service_fee r))
     (fst (calculate_booking_cost (Some (example_db calendar_costly [])) ''U1''
        ''2024-05-15'' ''2024-05-16''))
   = Inr (9400000000000008, 1128000000000001)
   \<and> (9400000000000008 * 12 div 100 :: int) = 1128000000000000"
  by code_simp

subsection \<open>Cancelling and booking again\<close>

lemma set_status_roundtrip:
  assumes "\<forall>d. a \<le> d \<and> d < c \<longrightarrow> bookable av d"
  shows "set_status ''available'' a c (set_status ''booked'' a c av) = av"
proof (rule ext)
  fix d
  show "set_status ''available'' a c (set_status ''booked'' a c av) d = av d"
  proof (cases "a \<le> d \<and> d < c")
    case False
    then show ?thesis by (auto simp: set_status_def)
  next
    case True
    with assms obtain e where e: "av d = Some e" "status e = ''available''"
      by (auto simp: bookable_def split: option.splits)
    then have "e\<lparr>status := ''available''\<rparr> = e" by (cases e) simp
    with True e show ?thesis by (simp add: set_status_def)
  qed
qed

lemma quote_depends_on_properties:
  "properties (load_db file2) = properties (load_db file1)
   \<Longrightarrow> calculate_booking_cost file2 pid ci co = (fst (calculate_booking_cost file1 pid ci co), file2)"
  by (simp add: calculate_booking_cost_def Let_def split: option.splits sum.splits prod.splits)

lemma quote_passes_range:
  assumes "properties (load_db file) pid = Some pr"
    and "strptime ci = Some a" "strptime co = Some c" "a < c"
    and "check_availability (availability pr) a c 0 = Inr t"
  shows "\<exists>costs. calculate_booking_cost file pid ci co = (fees pid ci co (c - a) costs t, file)"
proof -
  from assms(5) obtain costs t' where n: "nightly_loop (availability pr) a c [] 0 = Inr (costs, t')"
    using nightly_loop_Inl_iff[of "availability pr" a c "[]" 0]
    by (cases "nightly_loop (availability pr) a c [] 0") auto
  with nightly_loop_check_availability[of "availability pr" a c "[]" 0] assms(5)
  have "t' = t" by simp
  with n assms(1-4) have "calculate_booking_cost file pid ci co
      = (fees pid ci co (c - a) costs t, file)"
    by (simp add: calculate_booking_cost_def dom_def)
  then show ?thesis by blast
qed

text \<open>
  Claim C5.  After a successful \<^verbatim>\<open>create_booking\<close>, cancelling the new booking succeeds;
  the properties and their calendars are then exactly what they were before the
  booking; booking the same property and dates again succeeds, for the same request and
  for any user, payment method and guest count that pass the validations; and the quote
  for the range gives what it gave before the booking: it passes the availability check
  and computes the fees of the booked total, so it succeeds for every total from 0 to
  below \<open>10 ^ 15\<close>.
\<close>

theorem cancel_then_rebook:
  assumes "create_booking today file uid pid ci co g pm sr = (Inr bk, file1)"
  shows "\<exists>bk' file2.
      cancel_booking today' file1 (booking_id bk) reason = (Inr bk', file2)
      \<and> booking_status bk' = ''cancelled''
      \<and> properties (load_db file2) = properties (load_db file)
      \<and> (\<exists>bk'' file3. create_booking today'' file2 uid pid ci co g pm sr = (Inr bk'', file3)
            \<and> booking_status bk'' = ''confirmed'')
      \<and> (\<forall>uid' usr' g' pm' sr'.
            users (load_db file2) uid' = Some usr' \<and> pm' \<in> payment_methods usr'
            \<and> g' \<le> capacity_guests (the (properties (load_db file2) pid))
            \<longrightarrow> (\<exists>bk'' file3.
                   create_booking today'' file2 uid' pid ci co g' pm' sr' = (Inr bk'', file3)
                   \<and> booking_status bk'' = ''confirmed''))
      \<and> calculate_booking_cost file2 pid ci co
          = (fst (calculate_booking_cost file pid ci co), file2)
      \<and> (\<exists>costs. fst (calculate_booking_cost file2 pid ci co)
            = fees pid ci co (nights bk) costs (total_price bk))
      \<and> (0 \<le> total_price bk \<and> total_price bk < 10 ^ 15
          \<longrightarrow> (\<exists>r. calculate_booking_cost file2 pid ci co = (Inr r, file2)
                 \<and> subtotal r = total_price bk))"
proof -
  define db where "db = load_db file"
  from assms obtain usr pr a c new_id where
    usr: "users db uid = Some usr" and pr: "properties db pid = Some pr"
    and valid: "pm \<in> payment_methods usr" "g \<le> capacity_guests pr"
    and ac: "strptime ci = Some a" "strptime co = Some c" "a < c"
    and free: "\<forall>d. a \<le> d \<and> d < c \<longrightarrow> bookable (availability pr) d"
    and total: "check_availability (availability pr) a c 0 = Inr (total_price bk)"
    and next_id: "get_next_booking_id db = Inr new_id"
    and bk: "booking_id bk = new_id" "property_id bk = pid" "check_in_date bk = ci"
      "check_out_date bk = co" "booking_status bk = ''confirmed''" "nights bk = c - a"
    and file1: "file1 = Some (db
       \<lparr>bookings := AList.update new_id bk (bookings db),
        users := (users db)(uid \<mapsto> usr\<lparr>user_bookings := user_bookings usr @ [new_id]\<rparr>),
        properties := (properties db)(pid \<mapsto>
          pr\<lparr>availability := set_status ''booked'' a c (availability pr)\<rparr>)\<rparr>)"
    unfolding db_def by (rule create_booking_success)
  define db1 where "db1 = load_db file1"
  have db1: "bookings db1 = AList.update new_id bk (bookings db)"
    "users db1 = (users db)(uid \<mapsto> usr\<lparr>user_bookings := user_bookings usr @ [new_id]\<rparr>)"
    "properties db1 = (properties db)(pid \<mapsto>
          pr\<lparr>availability := set_status ''booked'' a c (availability pr)\<rparr>)"
    by (simp_all add: db1_def file1 load_db_def)
  define bk' where "bk' = bk\<lparr>booking_status := ''cancelled'', cancellation_reason := Some reason,
             cancellation_date := Some (strftime today')\<rparr>"
  define db2 where "db2 = db1
        \<lparr>bookings := AList.update new_id bk' (bookings db1),
         properties := (properties db1)(pid \<mapsto>
           (pr\<lparr>availability := set_status ''booked'' a c (availability pr)\<rparr>)
             \<lparr>availability := set_status ''available'' a c
                (availability (pr\<lparr>availability := set_status ''booked'' a c (availability pr)\<rparr>))\<rparr>)\<rparr>"
  have look: "map_of (bookings (load_db file1)) (booking_id bk) = Some bk"
    using db1(1) bk(1) by (simp add: db1_def[symmetric] update_conv')
  have cancel: "cancel_booking today' file1 (booking_id bk) reason = (Inr bk', Some db2)"
    using cancel_booking_success[OF look, of _ a c today' reason] bk ac db1(3)
    by (simp add: db1_def[symmetric] bk'_def db2_def)
  have props: "properties db2 = properties db"
    using pr by (simp add: db2_def db1(3) set_status_roundtrip[OF free] fun_upd_idem)
  have users2: "users db2 uid = Some (usr\<lparr>user_bookings := user_bookings usr @ [new_id]\<rparr>)"
    by (simp add: db2_def db1(2))
  have "bookings db2 = AList.update new_id bk' (AList.update new_id bk (bookings db))"
    by (simp add: db2_def db1(1))
  with next_id obtain next_id' where again: "get_next_booking_id db2 = Inr next_id'"
    using get_next_booking_id_again by blast
  have rebook: "\<exists>bk'' file3.
      create_booking today'' (Some db2) uid' pid ci co g' pm' sr' = (Inr bk'', file3)
      \<and> booking_status bk'' = ''confirmed''"
    if "users db2 uid' = Some usr'" "pm' \<in> payment_methods usr'" "g' \<le> capacity_guests pr"
    for uid' usr' g' pm' sr'
    using create_booking_succeeds[of "Some db2" uid' usr' pid pr pm' g' ci a co c next_id'
        today'' sr'] that props pr ac free again
    by (auto simp: load_db_def)
  have same: "\<exists>bk'' file3. create_booking today'' (Some db2) uid pid ci co g pm sr
                = (Inr bk'', file3) \<and> booking_status bk'' = ''confirmed''"
    using rebook[OF users2] valid by simp
  have quote: "calculate_booking_cost (Some db2) pid ci co
               = (fst (calculate_booking_cost file pid ci co), Some db2)"
    using props by (intro quote_depends_on_properties) (simp add: load_db_def db_def)
  have "\<exists>costs. calculate_booking_cost (Some db2) pid ci co
          = (fees pid ci co (c - a) costs (total_price bk), Some db2)"
    using quote_passes_range[of "Some db2" pid pr ci a co c "total_price bk"] props pr ac total
    by (simp add: load_db_def)
  then have fees: "\<exists>costs. fst (calculate_booking_cost (Some db2) pid ci co)
          = fees pid ci co (nights bk) costs (total_price bk)"
    using bk(6) by auto
  have general: "\<forall>uid' usr' g' pm' sr'.
            users (load_db (Some db2)) uid' = Some usr' \<and> pm' \<in> payment_methods usr'
            \<and> g' \<le> capacity_guests (the (properties (load_db (Some db2)) pid))
            \<longrightarrow> (\<exists>bk'' file3.
                   create_booking today'' (Some db2) uid' pid ci co g' pm' sr' = (Inr bk'', file3)
                   \<and> booking_status bk'' = ''confirmed'')"
    using rebook props pr by (auto simp: load_db_def)
  have succeeds: "0 \<le> total_price bk \<and> total_price bk < 10 ^ 15
          \<longrightarrow> (\<exists>r. calculate_booking_cost (Some db2) pid ci co = (Inr r, Some db2)
                 \<and> subtotal r = total_price bk)"
  proof
    assume b: "0 \<le> total_price bk \<and> total_price bk < 10 ^ 15"
    from fees obtain costs where "fst (calculate_booking_cost (Some db2) pid ci co)
          = fees pid ci co (nights bk) costs (total_price bk)"
      by blast
    with b obtain r where "fst (calculate_booking_cost (Some db2) pid ci co) = Inr r"
      "subtotal r = total_price bk"
      by (simp add: fees_exact)
    with quote show "\<exists>r. calculate_booking_cost (Some db2) pid ci co = (Inr r, Some db2)
                 \<and> subtotal r = total_price bk"
      by simp
  qed
  have "booking_status bk' = ''cancelled''" by (simp add: bk'_def)
  moreover have "properties (load_db (Some db2)) = properties (load_db file)"
    using props by (simp add: load_db_def db_def)
  ultimately show ?thesis
    using cancel same general quote fees succeeds by blast
qed

theorem cancel_then_rebook_witness:
  "\<exists>bk' file2.
      cancel_booking 739001
        (snd (create_booking 739000 (Some (example_db calendar_open [])) ''user1'' ''U1''
                ''2024-05-15'' ''2024-05-17'' 2 ''pm1'' None))
        ''BOOK001'' ''plans changed'' = (Inr bk', file2)
      \<and> booking_status bk' = ''cancelled''
      \<and> properties (load_db file2) = properties (load_db (Some (example_db calendar_open [])))
      \<and> (\<exists>bk'' file3. create_booking 739002 file2 ''user1'' ''U1'' ''2024-05-15'' ''2024-05-17''
                         2 ''pm1'' None = (Inr bk'', file3)
            \<and> booking_status bk'' = ''confirmed'')"
proof -
  obtain r f where rf: "create_booking 739000 (Some (example_db calendar_open [])) ''user1''
      ''U1'' ''2024-05-15'' ''2024-05-17'' 2 ''pm1'' None = (r, f)"
    by (cases "create_booking 739000 (Some (example_db calendar_open [])) ''user1''
      ''U1'' ''2024-05-15'' ''2024-05-17'' 2 ''pm1'' None") auto
  have "map_sum id booking_id (fst (create_booking 739000 (Some (example_db calendar_open []))
      ''user1'' ''U1'' ''2024-05-15'' ''2024-05-17'' 2 ''pm1'' None)) = Inr ''BOOK001''"
    by code_simp
  with rf obtain bk where bk: "r = Inr bk" "booking_id bk = ''BOOK001''"
    by (cases r) auto
  from cancel_then_rebook[of 739000 "Some (example_db calendar_open [])" "''user1''" "''U1''"
      "''2024-05-15''" "''2024-05-17''" 2 "''pm1''" None bk f 739001 "''plans changed''" 739002]
    rf bk
  show ?thesis by (simp only: snd_conv) blast
qed

end
